theory Spec2Isabelle
  imports Main
begin

section \<open>Values shared by the two services\<close>

text \<open>
  A JavaScript exception: the \<^verbatim>\<open>message\<close> of an \<^verbatim>\<open>Error\<close> and its \<^verbatim>\<open>code\<close> property,
  which is \<^verbatim>\<open>undefined\<close> (\<open>None\<close>) on a plain \<^verbatim>\<open>new Error(..)\<close>.
\<close>

datatype js_error = Error (err_message: string) (err_code: "string option")

text \<open>
  The JSON body of a request. A field that is absent destructures to \<^verbatim>\<open>undefined\<close>
  (\<open>None\<close>). Identifiers are strings and the quantity is an integer; JavaScript numbers are
  taken as mathematical integers (fractions and magnitudes beyond the exact range of a double
  are outside the model), and so are the stock counts the store holds.
\<close>

record body =
  productId :: "string option"
  quantity :: "int option"
  orderId :: "string option"

text \<open>
  JavaScript truthiness, as \<^verbatim>\<open>!x\<close> tests it: \<^verbatim>\<open>undefined\<close>, the empty string and the
  number 0 are falsy.
\<close>

definition falsy_string :: "string option \<Rightarrow> bool" where
  "falsy_string v = (case v of None \<Rightarrow> True | Some s \<Rightarrow> s = [])"

definition falsy_number :: "int option \<Rightarrow> bool" where
  "falsy_number v = (case v of None \<Rightarrow> True | Some n \<Rightarrow> n = 0)"

text \<open>
  Modelled from the spec: the schema of the two stores (\<^verbatim>\<open>schema.prisma\<close>) is not among
  the sources. The spec gives the stock count of a product and the quantity of an order as
  integers; the columns that hold them are of the store's integer type, a signed 32-bit
  integer, and a write of a value outside its range is rejected by the store.
\<close>

definition int32 :: "int \<Rightarrow> bool" where
  "int32 v = (- 2147483648 \<le> v \<and> v \<le> 2147483647)"

section \<open>Inventory service\<close>

subsection \<open>Store\<close>

record Product =
  name :: string
  stock :: int

text \<open>
  The two tables of the inventory store: products by \<^verbatim>\<open>id\<close>, and the idempotency log, whose
  rows carry nothing but their unique \<^verbatim>\<open>orderId\<close>.
\<close>

record inv_db =
  products :: "string \<rightharpoonup> Product"
  idempotencyLog :: "string set"

definition idempotencyLog_findUnique :: "inv_db \<Rightarrow> string \<Rightarrow> bool" where
  "idempotencyLog_findUnique db oid = (oid \<in> idempotencyLog db)"

definition product_findUnique :: "inv_db \<Rightarrow> string \<Rightarrow> Product option" where
  "product_findUnique db pid = products db pid"

text \<open>
  \<^verbatim>\<open>update\<close> rejects a stock that the column cannot hold, and rejects when no row has the
  identifier. The texts of the store's own errors stand for messages that the sources do not
  fix; the handlers pass them on and never test them.
\<close>

definition product_update :: "inv_db \<Rightarrow> string \<Rightarrow> int \<Rightarrow> js_error + inv_db" where
  "product_update db pid v =
     (if \<not> int32 v
      then Inl (Error ''Unable to fit integer value into the column'' None)
      else
       (case products db pid of
          None \<Rightarrow> Inl (Error ''Record to update not found'' (Some ''P2025''))
        | Some p \<Rightarrow> Inr (db\<lparr>products := (products db)(pid \<mapsto> p\<lparr>stock := v\<rparr>)\<rparr>)))"

text \<open>\<^verbatim>\<open>create\<close> rejects when the unique \<^verbatim>\<open>orderId\<close> is already in the log.\<close>

definition idempotencyLog_create :: "inv_db \<Rightarrow> string \<Rightarrow> js_error + inv_db" where
  "idempotencyLog_create db oid =
     (if oid \<in> idempotencyLog db
      then Inl (Error ''Unique constraint failed'' (Some ''P2002''))
      else Inr (db\<lparr>idempotencyLog := insert oid (idempotencyLog db)\<rparr>))"

subsection \<open>The transaction\<close>

text \<open>
  An interruption of a running transaction (a lost connection, a store failure): \<open>Some (k, m)\<close>
  strikes once \<open>k\<close> statements of the callback have run, and surfaces as an exception with
  message \<open>m\<close>; \<open>None\<close> is an undisturbed run. The callback has three statements, so
  \<open>k = 3\<close> is an interruption between the last statement and the commit.
\<close>

type_synonym fault = "(nat \<times> string) option"

definition interrupted :: "fault \<Rightarrow> nat \<Rightarrow> js_error option" where
  "interrupted crash i =
     (case crash of
        None \<Rightarrow> None
      | Some (k, m) \<Rightarrow> if k = i then Some (Error m None) else None)"

text \<open>
  The callback given to \<^verbatim>\<open>prisma.$transaction\<close> (lines 89 to 103): it works on the transaction's own view
  \<open>tx\<close> of the store and returns the view to commit, or the exception that aborts it.
\<close>

definition deduct_tx :: "fault \<Rightarrow> string \<Rightarrow> int \<Rightarrow> string \<Rightarrow> inv_db \<Rightarrow> js_error + inv_db" where
  "deduct_tx crash pid q oid tx =
     (case interrupted crash 0 of Some e \<Rightarrow> Inl e | None \<Rightarrow>
      (case product_findUnique tx pid of
         None \<Rightarrow> Inl (Error ''Insufficient stock or product not found'' None)
       | Some product \<Rightarrow>
           if stock product < q
           then Inl (Error ''Insufficient stock or product not found'' None)
           else
            (case interrupted crash 1 of Some e \<Rightarrow> Inl e | None \<Rightarrow>
             (case product_update tx pid (stock product - q) of
                Inl e \<Rightarrow> Inl e
              | Inr tx1 \<Rightarrow>
                 (case interrupted crash 2 of Some e \<Rightarrow> Inl e | None \<Rightarrow>
                  (case idempotencyLog_create tx1 oid of
                     Inl e \<Rightarrow> Inl e
                   | Inr tx2 \<Rightarrow>
                      (case interrupted crash 3 of Some e \<Rightarrow> Inl e | None \<Rightarrow> Inr tx2)))))))"

text \<open>
  \<^verbatim>\<open>prisma.$transaction\<close>: the callback's view replaces the store when the callback
  returns, and is dropped when it throws; the exception is thrown on to the caller.
\<close>

definition transaction :: "(inv_db \<Rightarrow> js_error + inv_db) \<Rightarrow> inv_db \<Rightarrow> inv_db \<times> (js_error + unit)" where
  "transaction callback db =
     (case callback db of
        Inl e \<Rightarrow> (db, Inl e)
      | Inr tx \<Rightarrow> (tx, Inr ()))"

subsection \<open>POST /inventory/deduct\<close>

text \<open>
  The handler of \<^verbatim>\<open>services/inventory-service/src/index.ts\<close> (lines 65 to 125); its
  logging is left out. The response is its status and its JSON: \<^verbatim>\<open>{error}\<close> or \<^verbatim>\<open>{message, success: true}\<close>.
\<close>

datatype inv_payload = ErrorPayload string | SuccessPayload string

record inv_response =
  inv_status :: nat
  inv_json :: inv_payload

text \<open>
  What a run of the handler does besides answering, in the order it does it: a committed or
  rolled back transaction, and the milliseconds it sleeps before it answers.
\<close>

datatype inv_event = TxCommit | TxRollback | Delay nat

record inv_result =
  inv_after :: inv_db
  inv_reply :: inv_response
  inv_trace :: "inv_event list"

definition deduct_fresh :: "fault \<Rightarrow> string \<Rightarrow> int \<Rightarrow> string \<Rightarrow> inv_db \<Rightarrow> inv_result" where
  "deduct_fresh crash pid q oid db =
     (case transaction (deduct_tx crash pid q oid) db of
        (db', Inl error) \<Rightarrow>
          \<lparr>inv_after = db',
           inv_reply = \<lparr>inv_status = 400, inv_json = ErrorPayload (err_message error)\<rparr>,
           inv_trace = [TxRollback]\<rparr>
      | (db', Inr _) \<Rightarrow>
          \<lparr>inv_after = db',
           inv_reply = \<lparr>inv_status = 200, inv_json = SuccessPayload ''Stock deducted''\<rparr>,
           inv_trace = TxCommit # (if q = 13 then [Delay 5000] else [])\<rparr>)"

definition post_inventory_deduct :: "fault \<Rightarrow> body \<Rightarrow> inv_db \<Rightarrow> inv_result" where
  "post_inventory_deduct crash req db =
     (if falsy_string (productId req) \<or> falsy_number (quantity req) \<or> falsy_string (orderId req)
      then \<lparr>inv_after = db,
            inv_reply = \<lparr>inv_status = 400,
                         inv_json = ErrorPayload ''Missing productId, quantity, or orderId''\<rparr>,
            inv_trace = []\<rparr>
      else
       (case (productId req, quantity req, orderId req) of
          (Some pid, Some q, Some oid) \<Rightarrow>
            if idempotencyLog_findUnique db oid
            then \<lparr>inv_after = db,
                  inv_reply = \<lparr>inv_status = 200,
                               inv_json = SuccessPayload ''Stock already deducted (Idempotent)''\<rparr>,
                  inv_trace = []\<rparr>
            else deduct_fresh crash pid q oid db
        | _ \<Rightarrow> \<lparr>inv_after = db,
                inv_reply = \<lparr>inv_status = 400,
                             inv_json = ErrorPayload ''Missing productId, quantity, or orderId''\<rparr>,
                inv_trace = []\<rparr>))"

text \<open>The time a run keeps its caller waiting: the sum of its sleeps.\<close>

fun delay_of :: "inv_event list \<Rightarrow> nat" where
  "delay_of [] = 0"
| "delay_of (Delay ms # es) = ms + delay_of es"
| "delay_of (_ # es) = delay_of es"

text \<open>
  A sequence of calls on one store, each with its own interruption: the result of every call
  in turn, and the store they leave.
\<close>

fun deduct_seq :: "(fault \<times> body) list \<Rightarrow> inv_db \<Rightarrow> inv_result list" where
  "deduct_seq [] db = []"
| "deduct_seq ((crash, req) # rs) db =
     (let r = post_inventory_deduct crash req db in r # deduct_seq rs (inv_after r))"

fun deduct_all :: "(fault \<times> body) list \<Rightarrow> inv_db \<Rightarrow> inv_db" where
  "deduct_all [] db = db"
| "deduct_all ((crash, req) # rs) db =
     deduct_all rs (inv_after (post_inventory_deduct crash req db))"

section \<open>Order service\<close>

subsection \<open>Store\<close>

datatype order_status = PENDING | CONFIRMED | FAILED

text \<open>An order row, keyed by its \<^verbatim>\<open>id\<close> in the table; the creation time is left out.\<close>

record Order =
  o_productId :: string
  o_quantity :: int
  status :: order_status

text \<open>
  \<^verbatim>\<open>create\<close> stores the row under the identifier the store generates for it; it rejects
  a quantity that the column cannot hold, and rejects when the identifier is taken.
  \<^verbatim>\<open>update\<close> rejects when no row has the identifier, and returns the updated row.
\<close>

definition order_create :: "(string \<rightharpoonup> Order) \<Rightarrow> string \<Rightarrow> Order \<Rightarrow> js_error + (string \<rightharpoonup> Order)" where
  "order_create os oid row =
     (if \<not> int32 (o_quantity row)
      then Inl (Error ''Unable to fit integer value into the column'' None)
      else
       (case os oid of
          Some _ \<Rightarrow> Inl (Error ''Unique constraint failed'' (Some ''P2002''))
        | None \<Rightarrow> Inr (os(oid \<mapsto> row))))"

definition order_update ::
  "(string \<rightharpoonup> Order) \<Rightarrow> string \<Rightarrow> order_status \<Rightarrow> js_error + ((string \<rightharpoonup> Order) \<times> Order)" where
  "order_update os oid st =
     (case os oid of
        None \<Rightarrow> Inl (Error ''Record to update not found'' (Some ''P2025''))
      | Some row \<Rightarrow> Inr (os(oid \<mapsto> row\<lparr>status := st\<rparr>), row\<lparr>status := st\<rparr>))"

subsection \<open>The call to the inventory service\<close>

text \<open>
  The network between the two services: the request and its response take some milliseconds
  besides the handler's own delay, or the request fails to reach the handler, with an error
  code.
\<close>

datatype network = Latency nat | NetError string

datatype axios_outcome = Resolved inv_response | Rejected js_error

text \<open>
  \<^verbatim>\<open>axios.post(url, data, {timeout})\<close>: it rejects with code \<^verbatim>\<open>ECONNABORTED\<close> when the
  response takes longer than the timeout, and with another code when the status is not 2xx;
  the caller reads the code of the error only, and the message texts here are short forms
  of the library's.
  The handler that received the request runs to its end whether or not the caller still
  waits, so the store it leaves does not depend on the timeout.
\<close>

definition axios_post_deduct ::
  "nat \<Rightarrow> network \<Rightarrow> fault \<Rightarrow> body \<Rightarrow> inv_db \<Rightarrow> inv_db \<times> axios_outcome" where
  "axios_post_deduct timeout nw crash req db =
     (case nw of
        NetError c \<Rightarrow> (db, Rejected (Error ''Network Error'' (Some c)))
      | Latency ms \<Rightarrow>
         (let r = post_inventory_deduct crash req db in
          (inv_after r,
           if timeout < ms + delay_of (inv_trace r)
           then Rejected (Error ''timeout exceeded'' (Some ''ECONNABORTED''))
           else if 200 \<le> inv_status (inv_reply r) \<and> inv_status (inv_reply r) < 300
           then Resolved (inv_reply r)
           else Rejected (Error ''Request failed'' (Some ''ERR_BAD_REQUEST'')))))"

subsection \<open>POST /orders\<close>

text \<open>
  The handler of \<^verbatim>\<open>services/order-service/src/index.ts\<close> (lines 58 to 114); its logging
  is left out. The response's JSON: \<^verbatim>\<open>{error}\<close>, the updated order (its \<^verbatim>\<open>id\<close> and row), or
  \<^verbatim>\<open>{error, orderId, status}\<close>.
\<close>

datatype order_payload =
    InvalidPayload string
  | OrderPayload string Order
  | FailedPayload string string order_status

record order_response =
  http_status :: nat
  http_json :: order_payload

text \<open>The order identifier a response carries, under \<^verbatim>\<open>orderId\<close> or as the order's \<^verbatim>\<open>id\<close>.\<close>

fun payload_orderId :: "order_payload \<Rightarrow> string option" where
  "payload_orderId (InvalidPayload e) = None"
| "payload_orderId (OrderPayload oid row) = Some oid"
| "payload_orderId (FailedPayload e oid st) = Some oid"

text \<open>The writes of a run on the orders table and its call to the inventory, in order.\<close>

datatype order_event =
    OrderCreate string order_status
  | InventoryCall string
  | OrderStatusWrite string order_status

text \<open>The two stores.\<close>

record system =
  orders :: "string \<rightharpoonup> Order"
  inventory :: inv_db

text \<open>
  What a run of the handler depends on besides the request and the stores: the identifier
  the store generates for the new order, the network, and the interruption of the
  inventory's transaction.
\<close>

record env =
  newId :: string
  net :: network
  tx_fault :: fault

text \<open>
  The result of a run: the stores, the response (\<open>None\<close> when an exception leaves the handler
  before it responds), and the events.
\<close>

record order_result =
  sys_after :: system
  reply :: "order_response option"
  trace :: "order_event list"

text \<open>
  The \<^verbatim>\<open>catch\<close> block (lines 98 to 113). When the update of the order rejects, the
  exception leaves the handler and no response is sent.
\<close>

definition catch_block ::
  "js_error \<Rightarrow> string \<Rightarrow> (string \<rightharpoonup> Order) \<Rightarrow> inv_db \<Rightarrow> order_event list \<Rightarrow> order_result" where
  "catch_block error oid os idb tr =
     (let errorMessage =
            (if err_code error = Some ''ECONNABORTED''
             then ''Order processing timed out waiting for inventory''
             else ''Order failed due to inventory issue'')
      in case order_update os oid FAILED of
           Inl e \<Rightarrow> \<lparr>sys_after = \<lparr>orders = os, inventory = idb\<rparr>, reply = None, trace = tr\<rparr>
         | Inr (os', row) \<Rightarrow>
             \<lparr>sys_after = \<lparr>orders = os', inventory = idb\<rparr>,
              reply = Some \<lparr>http_status = 503,
                            http_json = FailedPayload errorMessage oid FAILED\<rparr>,
              trace = tr @ [OrderStatusWrite oid FAILED]\<rparr>)"

text \<open>
  The handler once the order has been created: the \<^verbatim>\<open>try\<close> block. Its events follow
  the creation of the order.
\<close>

definition try_block ::
  "env \<Rightarrow> string \<Rightarrow> int \<Rightarrow> (string \<rightharpoonup> Order) \<Rightarrow> inv_db \<Rightarrow> order_result" where
  "try_block e pid q os idb =
     (let oid = newId e;
          tr = [InventoryCall oid]
      in case axios_post_deduct 2000 (net e) (tx_fault e)
                \<lparr>productId = Some pid, quantity = Some q, orderId = Some oid\<rparr> idb of
           (idb', Resolved inventoryResponse) \<Rightarrow>
             if inv_status inventoryResponse = 200
             then (case order_update os oid CONFIRMED of
                     Inr (os', updatedOrder) \<Rightarrow>
                       \<lparr>sys_after = \<lparr>orders = os', inventory = idb'\<rparr>,
                        reply = Some \<lparr>http_status = 201,
                                      http_json = OrderPayload oid updatedOrder\<rparr>,
                        trace = tr @ [OrderStatusWrite oid CONFIRMED]\<rparr>
                   | Inl error \<Rightarrow> catch_block error oid os idb' tr)
             else catch_block (Error ''Inventory deduction failed'' None) oid os idb' tr
         | (idb', Rejected error) \<Rightarrow> catch_block error oid os idb' tr)"

definition post_orders :: "env \<Rightarrow> body \<Rightarrow> system \<Rightarrow> order_result" where
  "post_orders e req s =
     (if falsy_string (productId req) \<or> falsy_number (quantity req)
      then \<lparr>sys_after = s,
            reply = Some \<lparr>http_status = 400,
                          http_json = InvalidPayload ''Missing productId or quantity''\<rparr>,
            trace = []\<rparr>
      else
       (case (productId req, quantity req) of
          (Some pid, Some q) \<Rightarrow>
            (let order = \<lparr>o_productId = pid, o_quantity = q, status = PENDING\<rparr> in
             case order_create (orders s) (newId e) order of
               Inl error \<Rightarrow> \<lparr>sys_after = s, reply = None, trace = []\<rparr>
             | Inr os \<Rightarrow>
                 (let r = try_block e pid q os (inventory s)
                  in r\<lparr>trace := OrderCreate (newId e) (status order) # trace r\<rparr>))
        | _ \<Rightarrow> \<lparr>sys_after = s,
                reply = Some \<lparr>http_status = 400,
                              http_json = InvalidPayload ''Missing productId or quantity''\<rparr>,
                trace = []\<rparr>))"

subsection \<open>The system\<close>

text \<open>
  The requests that write to a store: an order placement, and a deduction sent to the
  inventory directly. The other routes (the listings, health, metrics, seeding of an empty
  product table) write nothing to the orders table or to the idempotency log.
\<close>

datatype request = PostOrders env body | PostInventoryDeduct fault body

fun step :: "request \<Rightarrow> system \<Rightarrow> system" where
  "step (PostOrders e req) s = sys_after (post_orders e req s)"
| "step (PostInventoryDeduct c req) s =
     s\<lparr>inventory := inv_after (post_inventory_deduct c req (inventory s))\<rparr>"

fun run :: "request list \<Rightarrow> system \<Rightarrow> system" where
  "run [] s = s"
| "run (r # rs) s = run rs (step r s)"

text \<open>The status writes among the events of a run.\<close>

fun status_writes :: "order_event list \<Rightarrow> (string \<times> order_status) list" where
  "status_writes [] = []"
| "status_writes (OrderStatusWrite oid st # es) = (oid, st) # status_writes es"
| "status_writes (_ # es) = status_writes es"

section \<open>Properties of the inventory service\<close>

subsection \<open>The transaction and the two paths of the handler\<close>

lemma deduct_tx_commit:
  assumes "deduct_tx c pid q oid db = Inr tx"
  shows "\<exists>p. products db pid = Some p \<and> q \<le> stock p \<and> int32 (stock p - q) \<and>
             oid \<notin> idempotencyLog db \<and>
             tx = \<lparr>products = (products db)(pid \<mapsto> p\<lparr>stock := stock p - q\<rparr>),
                   idempotencyLog = insert oid (idempotencyLog db)\<rparr>"
  using assms
  by (auto simp: deduct_tx_def product_findUnique_def product_update_def idempotencyLog_create_def
           split: option.splits if_splits sum.splits)

lemma deduct_tx_undisturbed:
  assumes "products db pid = Some p" and "q \<le> stock p" and "oid \<notin> idempotencyLog db"
    and "int32 (stock p - q)"
  shows "deduct_tx None pid q oid db =
           Inr \<lparr>products = (products db)(pid \<mapsto> p\<lparr>stock := stock p - q\<rparr>),
                idempotencyLog = insert oid (idempotencyLog db)\<rparr>"
  using assms
  by (simp add: deduct_tx_def interrupted_def product_findUnique_def product_update_def
        idempotencyLog_create_def)

lemma deduct_tx_rejects:
  assumes "interrupted c 0 = None" and "products db pid = None \<or> (\<exists>p. products db pid = Some p \<and> stock p < q)"
  shows "deduct_tx c pid q oid db = Inl (Error ''Insufficient stock or product not found'' None)"
  using assms
  by (auto simp: deduct_tx_def product_findUnique_def)

lemma post_inventory_deduct_replay:
  assumes "orderId req = Some oid" and "oid \<in> idempotencyLog db"
    and "\<not> falsy_string (productId req)" and "\<not> falsy_number (quantity req)" and "oid \<noteq> []"
  shows "post_inventory_deduct c req db =
           \<lparr>inv_after = db,
            inv_reply = \<lparr>inv_status = 200,
                         inv_json = SuccessPayload ''Stock already deducted (Idempotent)''\<rparr>,
            inv_trace = []\<rparr>"
  using assms
  by (auto simp: post_inventory_deduct_def falsy_string_def falsy_number_def
        idempotencyLog_findUnique_def split: option.splits)

lemma post_inventory_deduct_fresh:
  assumes "productId req = Some pid" and "pid \<noteq> []" and "quantity req = Some q" and "q \<noteq> 0"
    and "orderId req = Some oid" and "oid \<noteq> []" and "oid \<notin> idempotencyLog db"
  shows "post_inventory_deduct c req db = deduct_fresh c pid q oid db"
  using assms
  by (simp add: post_inventory_deduct_def falsy_string_def falsy_number_def
        idempotencyLog_findUnique_def)

lemma deduct_fresh_commit:
  assumes "products db pid = Some p" and "q \<le> stock p" and "oid \<notin> idempotencyLog db"
    and "int32 (stock p - q)"
  shows "deduct_fresh None pid q oid db =
           \<lparr>inv_after = \<lparr>products = (products db)(pid \<mapsto> p\<lparr>stock := stock p - q\<rparr>),
                         idempotencyLog = insert oid (idempotencyLog db)\<rparr>,
            inv_reply = \<lparr>inv_status = 200, inv_json = SuccessPayload ''Stock deducted''\<rparr>,
            inv_trace = TxCommit # (if q = 13 then [Delay 5000] else [])\<rparr>"
  by (simp add: deduct_fresh_def transaction_def deduct_tx_undisturbed [OF assms])

lemma deduct_fresh_rollback:
  assumes "deduct_tx c pid q oid db = Inl e"
  shows "deduct_fresh c pid q oid db =
           \<lparr>inv_after = db,
            inv_reply = \<lparr>inv_status = 400, inv_json = ErrorPayload (err_message e)\<rparr>,
            inv_trace = [TxRollback]\<rparr>"
  by (simp add: deduct_fresh_def transaction_def assms)

lemma deduct_seq_replay:
  assumes "oid \<in> idempotencyLog db" and "oid \<noteq> []"
    and "\<forall>(c, r) \<in> set rs. orderId r = Some oid \<and> \<not> falsy_string (productId r) \<and>
           \<not> falsy_number (quantity r)"
  shows "deduct_seq rs db =
           replicate (length rs)
             \<lparr>inv_after = db,
              inv_reply = \<lparr>inv_status = 200,
                           inv_json = SuccessPayload ''Stock already deducted (Idempotent)''\<rparr>,
              inv_trace = []\<rparr>"
  using assms
proof (induction rs)
  case Nil
  show ?case by simp
next
  case (Cons a rs)
  obtain c r where a: "a = (c, r)" by (cases a)
  from Cons.prems a have r: "orderId r = Some oid" "\<not> falsy_string (productId r)"
    "\<not> falsy_number (quantity r)" by auto
  have "post_inventory_deduct c r db =
           \<lparr>inv_after = db,
            inv_reply = \<lparr>inv_status = 200,
                         inv_json = SuccessPayload ''Stock already deducted (Idempotent)''\<rparr>,
            inv_trace = []\<rparr>"
    using post_inventory_deduct_replay [OF r(1) Cons.prems(1) r(2) r(3) Cons.prems(2)] .
  moreover have "deduct_seq rs db =
           replicate (length rs)
             \<lparr>inv_after = db,
              inv_reply = \<lparr>inv_status = 200,
                           inv_json = SuccessPayload ''Stock already deducted (Idempotent)''\<rparr>,
              inv_trace = []\<rparr>"
    using Cons.IH Cons.prems by simp
  ultimately show ?case by (simp add: a Let_def)
qed

lemma deduct_all_replay:
  assumes "oid \<in> idempotencyLog db" and "oid \<noteq> []"
    and "\<forall>(c, r) \<in> set rs. orderId r = Some oid \<and> \<not> falsy_string (productId r) \<and>
           \<not> falsy_number (quantity r)"
  shows "deduct_all rs db = db"
  using assms
proof (induction rs)
  case Nil
  show ?case by simp
next
  case (Cons a rs)
  obtain c r where a: "a = (c, r)" by (cases a)
  from Cons.prems a have r: "orderId r = Some oid" "\<not> falsy_string (productId r)"
    "\<not> falsy_number (quantity r)" by auto
  have "inv_after (post_inventory_deduct c r db) = db"
    using post_inventory_deduct_replay [OF r(1) Cons.prems(1) r(2) r(3) Cons.prems(2)] by simp
  moreover have "deduct_all rs db = db"
    using Cons.IH Cons.prems by simp
  ultimately show ?case by (simp add: a)
qed

lemma deduct_fresh_cases:
  "(\<exists>e. deduct_tx c pid q oid db = Inl e \<and>
        deduct_fresh c pid q oid db =
          \<lparr>inv_after = db,
           inv_reply = \<lparr>inv_status = 400, inv_json = ErrorPayload (err_message e)\<rparr>,
           inv_trace = [TxRollback]\<rparr>) \<or>
   (\<exists>p. products db pid = Some p \<and> q \<le> stock p \<and> int32 (stock p - q) \<and>
        oid \<notin> idempotencyLog db \<and>
        deduct_fresh c pid q oid db =
          \<lparr>inv_after = \<lparr>products = (products db)(pid \<mapsto> p\<lparr>stock := stock p - q\<rparr>),
                        idempotencyLog = insert oid (idempotencyLog db)\<rparr>,
           inv_reply = \<lparr>inv_status = 200, inv_json = SuccessPayload ''Stock deducted''\<rparr>,
           inv_trace = TxCommit # (if q = 13 then [Delay 5000] else [])\<rparr>)"
proof (cases "deduct_tx c pid q oid db")
  case (Inl e)
  then show ?thesis using deduct_fresh_rollback by blast
next
  case (Inr tx)
  from deduct_tx_commit [OF Inr] obtain p where p: "products db pid = Some p" "q \<le> stock p"
    "int32 (stock p - q)" "oid \<notin> idempotencyLog db"
    "tx = \<lparr>products = (products db)(pid \<mapsto> p\<lparr>stock := stock p - q\<rparr>),
           idempotencyLog = insert oid (idempotencyLog db)\<rparr>" by blast
  have "deduct_fresh c pid q oid db =
          \<lparr>inv_after = tx,
           inv_reply = \<lparr>inv_status = 200, inv_json = SuccessPayload ''Stock deducted''\<rparr>,
           inv_trace = TxCommit # (if q = 13 then [Delay 5000] else [])\<rparr>"
    by (simp add: deduct_fresh_def transaction_def Inr)
  with p show ?thesis by blast
qed

lemma deduct_tx_interrupted_message:
  assumes "k \<le> 3" and "oid \<notin> idempotencyLog db"
  shows "\<exists>e. deduct_tx (Some (k, m)) pid q oid db = Inl e \<and>
           (k = 0 \<or> (\<exists>p. products db pid = Some p \<and> q \<le> stock p \<and>
                          (k = 1 \<or> int32 (stock p - q))) \<longrightarrow>
              e = Error m None) \<and>
           (k \<noteq> 0 \<and> (products db pid = None \<or> (\<exists>p. products db pid = Some p \<and> stock p < q)) \<longrightarrow>
              e = Error ''Insufficient stock or product not found'' None)"
  using assms
  by (auto simp: deduct_tx_def interrupted_def product_findUnique_def product_update_def
        idempotencyLog_create_def split: option.splits sum.splits)

lemma deduct_tx_out_of_range:
  assumes "products db pid = Some p" and "q \<le> stock p" and "\<not> int32 (stock p - q)"
  shows "\<exists>e. deduct_tx None pid q oid db = Inl e"
  using assms
  by (simp add: deduct_tx_def interrupted_def product_findUnique_def product_update_def)

lemma post_inventory_deduct_cases:
  "inv_after (post_inventory_deduct c req db) = db \<or>
   (\<exists>pid q oid p. productId req = Some pid \<and> quantity req = Some q \<and> orderId req = Some oid \<and>
      products db pid = Some p \<and> q \<le> stock p \<and> int32 (stock p - q) \<and>
      oid \<notin> idempotencyLog db \<and>
      post_inventory_deduct c req db =
        \<lparr>inv_after = \<lparr>products = (products db)(pid \<mapsto> p\<lparr>stock := stock p - q\<rparr>),
                      idempotencyLog = insert oid (idempotencyLog db)\<rparr>,
         inv_reply = \<lparr>inv_status = 200, inv_json = SuccessPayload ''Stock deducted''\<rparr>,
         inv_trace = TxCommit # (if q = 13 then [Delay 5000] else [])\<rparr>)"
proof (cases "falsy_string (productId req) \<or> falsy_number (quantity req) \<or>
              falsy_string (orderId req)")
  case True
  then show ?thesis by (auto simp: post_inventory_deduct_def)
next
  case False
  then obtain pid q oid where f: "productId req = Some pid" "pid \<noteq> []" "quantity req = Some q"
    "q \<noteq> 0" "orderId req = Some oid" "oid \<noteq> []"
    by (auto simp: falsy_string_def falsy_number_def split: option.splits)
  show ?thesis
  proof (cases "oid \<in> idempotencyLog db")
    case True
    then show ?thesis
      using post_inventory_deduct_replay [where c = c, OF f(5) True _ _ f(6)] False by simp
  next
    case fresh: False
    have "post_inventory_deduct c req db = deduct_fresh c pid q oid db"
      using post_inventory_deduct_fresh [OF f fresh] .
    with deduct_fresh_cases [of c pid q oid db] f show ?thesis by auto
  qed
qed

lemma post_inventory_deduct_nonneg:
  assumes "products db pid = Some p" and "0 \<le> stock p"
  shows "\<exists>p'. products (inv_after (post_inventory_deduct c req db)) pid = Some p' \<and> 0 \<le> stock p'"
  using post_inventory_deduct_cases [of c req db] assms
  by (cases "productId req = Some pid") auto

lemma deduct_all_nonneg:
  assumes "products db pid = Some p" and "0 \<le> stock p"
  shows "\<exists>p'. products (deduct_all rs db) pid = Some p' \<and> 0 \<le> stock p'"
  using assms
proof (induction rs arbitrary: db p)
  case Nil
  then show ?case by simp
next
  case (Cons a rs)
  obtain c req where a: "a = (c, req)" by (cases a)
  from post_inventory_deduct_nonneg [OF Cons.prems, of c req]
  obtain p1 where "products (inv_after (post_inventory_deduct c req db)) pid = Some p1"
    "0 \<le> stock p1" by blast
  from Cons.IH [OF this] show ?case by (simp add: a)
qed

lemma deduct_fresh_status:
  "inv_reply (deduct_fresh c pid q oid db) =
      \<lparr>inv_status = 200, inv_json = SuccessPayload ''Stock deducted''\<rparr> \<or>
   (\<exists>m. inv_reply (deduct_fresh c pid q oid db) =
      \<lparr>inv_status = 400, inv_json = ErrorPayload m\<rparr>)"
  using deduct_fresh_cases [of c pid q oid db] by auto

lemma post_inventory_deduct_status:
  "(inv_reply (post_inventory_deduct c req db) =
      \<lparr>inv_status = 200, inv_json = SuccessPayload ''Stock deducted''\<rparr> \<or>
    inv_reply (post_inventory_deduct c req db) =
      \<lparr>inv_status = 200, inv_json = SuccessPayload ''Stock already deducted (Idempotent)''\<rparr>) \<or>
   (\<exists>m. inv_reply (post_inventory_deduct c req db) =
      \<lparr>inv_status = 400, inv_json = ErrorPayload m\<rparr>)"
proof (cases "falsy_string (productId req) \<or> falsy_number (quantity req) \<or>
              falsy_string (orderId req)")
  case True
  then show ?thesis by (auto simp: post_inventory_deduct_def)
next
  case False
  then obtain pid q oid where f: "productId req = Some pid" "quantity req = Some q"
    "orderId req = Some oid"
    by (auto simp: falsy_string_def falsy_number_def split: option.splits)
  show ?thesis
    using False f deduct_fresh_status [of c pid q oid db]
    by (auto simp: post_inventory_deduct_def)
qed

lemma post_inventory_deduct_trace:
  "inv_trace (post_inventory_deduct c req db) = [] \<or>
   inv_trace (post_inventory_deduct c req db) = [TxRollback] \<or>
   (\<exists>q. quantity req = Some q \<and>
      inv_trace (post_inventory_deduct c req db) = TxCommit # (if q = 13 then [Delay 5000] else []))"
proof (cases "falsy_string (productId req) \<or> falsy_number (quantity req) \<or>
              falsy_string (orderId req)")
  case True
  then show ?thesis by (auto simp: post_inventory_deduct_def)
next
  case False
  then obtain pid q oid where f: "productId req = Some pid" "quantity req = Some q"
    "orderId req = Some oid"
    by (auto simp: falsy_string_def falsy_number_def split: option.splits)
  show ?thesis
    using False f deduct_fresh_cases [of c pid q oid db]
    by (auto simp: post_inventory_deduct_def)
qed

subsection \<open>Idempotency of deduction\<close>

text \<open>
  C1. When the first call with an operation identifier commits (a valid request for a product
  whose stock covers the quantity, the stock that remains being one the column holds, and
  the identifier not yet in the log), then of any number
  of calls that follow with the same identifier, each returns the
  \<^verbatim>\<open>Stock already deducted (Idempotent)\<close> success at once: it leaves the store as the first
  call left it, runs no transaction and sleeps for no delay. So the calls together commit
  one transaction, and the stock is the initial stock less the quantity, once.
\<close>

theorem deduct_idempotent:
  assumes "productId req = Some pid" and "pid \<noteq> []" and "quantity req = Some q" and "q \<noteq> 0"
    and "orderId req = Some oid" and "oid \<noteq> []" and "oid \<notin> idempotencyLog db"
    and "products db pid = Some p" and "q \<le> stock p"
    and "\<forall>(c, r) \<in> set rs. orderId r = Some oid \<and> \<not> falsy_string (productId r) \<and>
           \<not> falsy_number (quantity r)"
    and "int32 (stock p - q)"
  shows "let db1 = \<lparr>products = (products db)(pid \<mapsto> p\<lparr>stock := stock p - q\<rparr>),
                     idempotencyLog = insert oid (idempotencyLog db)\<rparr>;
             results = deduct_seq ((None, req) # rs) db
         in results =
              \<lparr>inv_after = db1,
               inv_reply = \<lparr>inv_status = 200, inv_json = SuccessPayload ''Stock deducted''\<rparr>,
               inv_trace = TxCommit # (if q = 13 then [Delay 5000] else [])\<rparr> #
              replicate (length rs)
                \<lparr>inv_after = db1,
                 inv_reply = \<lparr>inv_status = 200,
                              inv_json = SuccessPayload ''Stock already deducted (Idempotent)''\<rparr>,
                 inv_trace = []\<rparr>
            \<and> length (filter (\<lambda>ev. ev = TxCommit) (concat (map inv_trace results))) = 1
            \<and> deduct_all ((None, req) # rs) db = db1
            \<and> products (deduct_all ((None, req) # rs) db) pid = Some (p\<lparr>stock := stock p - q\<rparr>)"
proof -
  define db1 where "db1 = \<lparr>products = (products db)(pid \<mapsto> p\<lparr>stock := stock p - q\<rparr>),
                     idempotencyLog = insert oid (idempotencyLog db)\<rparr>"
  define again where "again = \<lparr>inv_after = db1,
                 inv_reply = \<lparr>inv_status = 200,
                              inv_json = SuccessPayload ''Stock already deducted (Idempotent)''\<rparr>,
                 inv_trace = []\<rparr>"
  define first where "first = \<lparr>inv_after = db1,
               inv_reply = \<lparr>inv_status = 200, inv_json = SuccessPayload ''Stock deducted''\<rparr>,
               inv_trace = TxCommit # (if q = 13 then [Delay 5000] else [])\<rparr>"
  have one: "post_inventory_deduct None req db = first"
    using post_inventory_deduct_fresh [OF assms(1-7)] deduct_fresh_commit [OF assms(8,9,7,11)]
    by (simp add: first_def db1_def)
  have "oid \<in> idempotencyLog db1" by (simp add: db1_def)
  then have rest: "deduct_seq rs db1 = replicate (length rs) again"
    unfolding again_def using deduct_seq_replay assms(6,10) by blast
  have after: "inv_after first = db1" by (simp add: first_def)
  have seq: "deduct_seq ((None, req) # rs) db = first # replicate (length rs) again"
    by (simp add: one after rest)
  have tr: "inv_trace again = []" by (simp add: again_def)
  have noev: "concat (replicate n ([] :: inv_event list)) = []" for n
    by (induction n) simp_all
  have count: "length (filter (\<lambda>ev. ev = TxCommit)
      (concat (map inv_trace (first # replicate (length rs) again)))) = 1"
    by (simp add: first_def tr noev)
  have fin: "deduct_all ((None, req) # rs) db = db1"
    using deduct_all_replay [OF \<open>oid \<in> idempotencyLog db1\<close> assms(6,10)] by (simp add: one after)
  have "products db1 pid = Some (p\<lparr>stock := stock p - q\<rparr>)" by (simp add: db1_def)
  with seq count fin show ?thesis
    unfolding Let_def db1_def [symmetric] first_def [symmetric] again_def [symmetric]
    by simp
qed

theorem deduct_idempotent_witness:
  "deduct_seq [(None, \<lparr>productId = Some ''p1'', quantity = Some 13, orderId = Some ''o1''\<rparr>),
               (None, \<lparr>productId = Some ''p1'', quantity = Some 13, orderId = Some ''o1''\<rparr>),
               (Some (1, ''lost''), \<lparr>productId = Some ''p1'', quantity = Some 13, orderId = Some ''o1''\<rparr>)]
      \<lparr>products = [''p1'' \<mapsto> \<lparr>name = ''Quantum Processor'', stock = 100\<rparr>], idempotencyLog = {}\<rparr>
   = [\<lparr>inv_after = \<lparr>products = [''p1'' \<mapsto> \<lparr>name = ''Quantum Processor'', stock = 87\<rparr>], idempotencyLog = {''o1''}\<rparr>,
       inv_reply = \<lparr>inv_status = 200, inv_json = SuccessPayload ''Stock deducted''\<rparr>,
       inv_trace = [TxCommit, Delay 5000]\<rparr>,
      \<lparr>inv_after = \<lparr>products = [''p1'' \<mapsto> \<lparr>name = ''Quantum Processor'', stock = 87\<rparr>], idempotencyLog = {''o1''}\<rparr>,
       inv_reply = \<lparr>inv_status = 200, inv_json = SuccessPayload ''Stock already deducted (Idempotent)''\<rparr>,
       inv_trace = []\<rparr>,
      \<lparr>inv_after = \<lparr>products = [''p1'' \<mapsto> \<lparr>name = ''Quantum Processor'', stock = 87\<rparr>], idempotencyLog = {''o1''}\<rparr>,
       inv_reply = \<lparr>inv_status = 200, inv_json = SuccessPayload ''Stock already deducted (Idempotent)''\<rparr>,
       inv_trace = []\<rparr>]"
  using deduct_idempotent [of "\<lparr>productId = Some ''p1'', quantity = Some 13, orderId = Some ''o1''\<rparr>"
      "''p1''" 13 "''o1''"
      "\<lparr>products = [''p1'' \<mapsto> \<lparr>name = ''Quantum Processor'', stock = 100\<rparr>], idempotencyLog = {}\<rparr>"
      "\<lparr>name = ''Quantum Processor'', stock = 100\<rparr>"
      "[(None, \<lparr>productId = Some ''p1'', quantity = Some 13, orderId = Some ''o1''\<rparr>),
        (Some (1, ''lost''), \<lparr>productId = Some ''p1'', quantity = Some 13, orderId = Some ''o1''\<rparr>)]"]
  by (simp add: falsy_string_def falsy_number_def int32_def Let_def
        del: deduct_seq.simps deduct_all.simps)

subsection \<open>Atomicity of the decrement and the log entry\<close>

text \<open>
  C2. For a valid request whose identifier is not in the log, the stock update and the log
  entry are committed together or not at all. An undisturbed transaction on a product whose
  stock covers the quantity, the remaining stock being one the column holds, commits both:
  the store holds the decremented stock and the new log entry. In every other case the
  store is left as it was and the response is a 400 with the message of the exception that
  ended the transaction: the error of the guard when the product is missing or its stock is
  below the quantity, the store's error when it rejects the new stock, and the
  interruption's when the transaction is interrupted at any point before its commit (before
  the first statement, after the read, between the stock update and the log entry, or after
  the log entry) and no statement has thrown before that point.
\<close>

theorem deduct_atomic:
  assumes "productId req = Some pid" and "pid \<noteq> []" and "quantity req = Some q" and "q \<noteq> 0"
    and "orderId req = Some oid" and "oid \<noteq> []" and "oid \<notin> idempotencyLog db"
  shows "let r = post_inventory_deduct c req db in
           ((inv_after r = db \<and> inv_trace r = [TxRollback] \<and> inv_status (inv_reply r) = 400 \<and>
             (\<exists>m. inv_json (inv_reply r) = ErrorPayload m)) \<or>
            (\<exists>p. products db pid = Some p \<and> q \<le> stock p \<and> int32 (stock p - q) \<and>
               r = \<lparr>inv_after = \<lparr>products = (products db)(pid \<mapsto> p\<lparr>stock := stock p - q\<rparr>),
                                  idempotencyLog = insert oid (idempotencyLog db)\<rparr>,
                     inv_reply = \<lparr>inv_status = 200, inv_json = SuccessPayload ''Stock deducted''\<rparr>,
                     inv_trace = TxCommit # (if q = 13 then [Delay 5000] else [])\<rparr>)) \<and>
           (\<forall>p. c = None \<and> products db pid = Some p \<and> q \<le> stock p \<and> int32 (stock p - q) \<longrightarrow>
              r = \<lparr>inv_after = \<lparr>products = (products db)(pid \<mapsto> p\<lparr>stock := stock p - q\<rparr>),
                                 idempotencyLog = insert oid (idempotencyLog db)\<rparr>,
                    inv_reply = \<lparr>inv_status = 200, inv_json = SuccessPayload ''Stock deducted''\<rparr>,
                    inv_trace = TxCommit # (if q = 13 then [Delay 5000] else [])\<rparr>) \<and>
           (interrupted c 0 = None \<and>
              (products db pid = None \<or> (\<exists>p. products db pid = Some p \<and> stock p < q)) \<longrightarrow>
              r = \<lparr>inv_after = db,
                    inv_reply = \<lparr>inv_status = 400,
                                 inv_json = ErrorPayload ''Insufficient stock or product not found''\<rparr>,
                    inv_trace = [TxRollback]\<rparr>) \<and>
           (\<forall>p. c = None \<and> products db pid = Some p \<and> q \<le> stock p \<and> \<not> int32 (stock p - q) \<longrightarrow>
              inv_after r = db \<and> inv_trace r = [TxRollback] \<and> inv_status (inv_reply r) = 400 \<and>
              (\<exists>m. inv_json (inv_reply r) = ErrorPayload m)) \<and>
           (\<forall>k m. c = Some (k, m) \<and> k \<le> 3 \<longrightarrow>
              inv_after r = db \<and> inv_trace r = [TxRollback] \<and> inv_status (inv_reply r) = 400 \<and>
              (\<exists>msg. inv_json (inv_reply r) = ErrorPayload msg) \<and>
              (k = 0 \<or> (\<exists>p. products db pid = Some p \<and> q \<le> stock p \<and>
                            (k = 1 \<or> int32 (stock p - q))) \<longrightarrow>
                 inv_json (inv_reply r) = ErrorPayload m) \<and>
              (k \<noteq> 0 \<and> (products db pid = None \<or> (\<exists>p. products db pid = Some p \<and> stock p < q)) \<longrightarrow>
                 inv_json (inv_reply r) =
                   ErrorPayload ''Insufficient stock or product not found''))"
proof -
  let ?f = "deduct_fresh c pid q oid db"
  have r: "post_inventory_deduct c req db = ?f"
    using post_inventory_deduct_fresh [OF assms] .
  have a: "(inv_after ?f = db \<and> inv_trace ?f = [TxRollback] \<and> inv_status (inv_reply ?f) = 400 \<and>
             (\<exists>m. inv_json (inv_reply ?f) = ErrorPayload m)) \<or>
            (\<exists>p. products db pid = Some p \<and> q \<le> stock p \<and> int32 (stock p - q) \<and>
               ?f = \<lparr>inv_after = \<lparr>products = (products db)(pid \<mapsto> p\<lparr>stock := stock p - q\<rparr>),
                                  idempotencyLog = insert oid (idempotencyLog db)\<rparr>,
                     inv_reply = \<lparr>inv_status = 200, inv_json = SuccessPayload ''Stock deducted''\<rparr>,
                     inv_trace = TxCommit # (if q = 13 then [Delay 5000] else [])\<rparr>)"
    using deduct_fresh_cases [of c pid q oid db] by auto
  have live: "?f = \<lparr>inv_after = \<lparr>products = (products db)(pid \<mapsto> p\<lparr>stock := stock p - q\<rparr>),
                                 idempotencyLog = insert oid (idempotencyLog db)\<rparr>,
                    inv_reply = \<lparr>inv_status = 200, inv_json = SuccessPayload ''Stock deducted''\<rparr>,
                    inv_trace = TxCommit # (if q = 13 then [Delay 5000] else [])\<rparr>"
    if "c = None \<and> products db pid = Some p \<and> q \<le> stock p \<and> int32 (stock p - q)" for p
    using that deduct_fresh_commit [of db pid p q oid] assms(7) by simp
  have b: "?f = \<lparr>inv_after = db,
               inv_reply = \<lparr>inv_status = 400,
                            inv_json = ErrorPayload ''Insufficient stock or product not found''\<rparr>,
               inv_trace = [TxRollback]\<rparr>"
    if "interrupted c 0 = None"
      and "products db pid = None \<or> (\<exists>p. products db pid = Some p \<and> stock p < q)"
    using deduct_fresh_rollback [OF deduct_tx_rejects [OF that]] by simp
  have range: "inv_after ?f = db \<and> inv_trace ?f = [TxRollback] \<and> inv_status (inv_reply ?f) = 400 \<and>
              (\<exists>m. inv_json (inv_reply ?f) = ErrorPayload m)"
    if "c = None \<and> products db pid = Some p \<and> q \<le> stock p \<and> \<not> int32 (stock p - q)" for p
  proof -
    from that obtain e where "deduct_tx c pid q oid db = Inl e"
      using deduct_tx_out_of_range [of db pid p q oid] by auto
    from deduct_fresh_rollback [OF this] show ?thesis by simp
  qed
  have d: "inv_after ?f = db \<and> inv_trace ?f = [TxRollback] \<and> inv_status (inv_reply ?f) = 400 \<and>
              (\<exists>msg. inv_json (inv_reply ?f) = ErrorPayload msg) \<and>
              (k = 0 \<or> (\<exists>p. products db pid = Some p \<and> q \<le> stock p \<and>
                            (k = 1 \<or> int32 (stock p - q))) \<longrightarrow>
                 inv_json (inv_reply ?f) = ErrorPayload m) \<and>
              (k \<noteq> 0 \<and> (products db pid = None \<or> (\<exists>p. products db pid = Some p \<and> stock p < q)) \<longrightarrow>
                 inv_json (inv_reply ?f) =
                   ErrorPayload ''Insufficient stock or product not found'')"
    if "c = Some (k, m) \<and> k \<le> 3" for k m
  proof -
    from that have k: "k \<le> 3" and c: "c = Some (k, m)" by simp_all
    from deduct_tx_interrupted_message [OF k assms(7), of m pid q]
    obtain e where e: "deduct_tx c pid q oid db = Inl e"
      "k = 0 \<or> (\<exists>p. products db pid = Some p \<and> q \<le> stock p \<and>
                          (k = 1 \<or> int32 (stock p - q))) \<longrightarrow> e = Error m None"
      "k \<noteq> 0 \<and> (products db pid = None \<or> (\<exists>p. products db pid = Some p \<and> stock p < q)) \<longrightarrow>
              e = Error ''Insufficient stock or product not found'' None"
      unfolding c by blast
    have f: "?f = \<lparr>inv_after = db,
            inv_reply = \<lparr>inv_status = 400, inv_json = ErrorPayload (err_message e)\<rparr>,
            inv_trace = [TxRollback]\<rparr>"
      using deduct_fresh_rollback [OF e(1)] .
    show ?thesis unfolding f using e(2,3) by auto
  qed
  show ?thesis unfolding Let_def r using a live b range d by blast
qed

theorem deduct_atomic_witness:
  "post_inventory_deduct (Some (2, ''connection lost''))
     \<lparr>productId = Some ''p1'', quantity = Some 5, orderId = Some ''o1''\<rparr>
     \<lparr>products = [''p1'' \<mapsto> \<lparr>name = ''Flux Capacitor'', stock = 20\<rparr>], idempotencyLog = {}\<rparr>
   = \<lparr>inv_after =
        \<lparr>products = [''p1'' \<mapsto> \<lparr>name = ''Flux Capacitor'', stock = 20\<rparr>], idempotencyLog = {}\<rparr>,
      inv_reply = \<lparr>inv_status = 400, inv_json = ErrorPayload ''connection lost''\<rparr>,
      inv_trace = [TxRollback]\<rparr> \<and>
   post_inventory_deduct None
     \<lparr>productId = Some ''p1'', quantity = Some 5, orderId = Some ''o1''\<rparr>
     \<lparr>products = [''p1'' \<mapsto> \<lparr>name = ''Flux Capacitor'', stock = 20\<rparr>], idempotencyLog = {}\<rparr>
   = \<lparr>inv_after =
        \<lparr>products = [''p1'' \<mapsto> \<lparr>name = ''Flux Capacitor'', stock = 15\<rparr>],
         idempotencyLog = {''o1''}\<rparr>,
      inv_reply = \<lparr>inv_status = 200, inv_json = SuccessPayload ''Stock deducted''\<rparr>,
      inv_trace = [TxCommit]\<rparr>"
proof -
  let ?req = "\<lparr>productId = Some ''p1'', quantity = Some 5, orderId = Some ''o1''\<rparr>"
  let ?db = "\<lparr>products = [''p1'' \<mapsto> \<lparr>name = ''Flux Capacitor'', stock = 20\<rparr>],
              idempotencyLog = {}\<rparr>"
  have cut: "post_inventory_deduct (Some (2, ''connection lost'')) ?req ?db
   = \<lparr>inv_after = ?db,
      inv_reply = \<lparr>inv_status = 400, inv_json = ErrorPayload ''connection lost''\<rparr>,
      inv_trace = [TxRollback]\<rparr>"
    using deduct_atomic [of ?req "''p1''" 5 "''o1''" ?db "Some (2, ''connection lost'')"]
    by (simp add: Let_def int32_def inv_result.equality inv_response.equality)
  have full: "post_inventory_deduct None ?req ?db
   = \<lparr>inv_after =
        \<lparr>products = [''p1'' \<mapsto> \<lparr>name = ''Flux Capacitor'', stock = 15\<rparr>],
         idempotencyLog = {''o1''}\<rparr>,
      inv_reply = \<lparr>inv_status = 200, inv_json = SuccessPayload ''Stock deducted''\<rparr>,
      inv_trace = [TxCommit]\<rparr>"
    using deduct_atomic [of ?req "''p1''" 5 "''o1''" ?db None]
    by (simp add: Let_def int32_def)
  from cut full show ?thesis by simp
qed

subsection \<open>Stock never goes negative\<close>

text \<open>
  C3. A product whose stock is not negative keeps a stock that is not negative through
  every sequence of deduction calls, whatever their fields and interruptions. A call changes
  the product's row only by a committed decrement, of a quantity that the stock it found
  covers. A valid request with a fresh identifier for more than the stock is rejected with
  the 400 response \<^verbatim>\<open>Insufficient stock or product not found\<close>, and leaves the products and
  the idempotency log as they were.
\<close>

theorem stock_never_negative:
  assumes "products db pid = Some p" and "0 \<le> stock p"
  shows "(\<exists>p'. products (deduct_all rs db) pid = Some p' \<and> 0 \<le> stock p') \<and>
         (\<forall>c req. products (inv_after (post_inventory_deduct c req db)) pid \<noteq> Some p \<longrightarrow>
            (\<exists>q. quantity req = Some q \<and> q \<le> stock p \<and>
                 products (inv_after (post_inventory_deduct c req db)) pid =
                   Some (p\<lparr>stock := stock p - q\<rparr>))) \<and>
         (\<forall>c q oid. interrupted c 0 = None \<and> pid \<noteq> [] \<and> q \<noteq> 0 \<and> oid \<noteq> [] \<and>
              oid \<notin> idempotencyLog db \<and> stock p < q \<longrightarrow>
            post_inventory_deduct c \<lparr>productId = Some pid, quantity = Some q, orderId = Some oid\<rparr> db =
              \<lparr>inv_after = db,
               inv_reply = \<lparr>inv_status = 400,
                            inv_json = ErrorPayload ''Insufficient stock or product not found''\<rparr>,
               inv_trace = [TxRollback]\<rparr>)"
proof (intro conjI allI impI)
  show "\<exists>p'. products (deduct_all rs db) pid = Some p' \<and> 0 \<le> stock p'"
    using deduct_all_nonneg [OF assms] .
next
  fix c req
  assume ch: "products (inv_after (post_inventory_deduct c req db)) pid \<noteq> Some p"
  with post_inventory_deduct_cases [of c req db] assms(1)
  show "\<exists>q. quantity req = Some q \<and> q \<le> stock p \<and>
            products (inv_after (post_inventory_deduct c req db)) pid =
              Some (p\<lparr>stock := stock p - q\<rparr>)"
    by (cases "productId req = Some pid") auto
next
  fix c q oid
  assume h: "interrupted c 0 = None \<and> pid \<noteq> [] \<and> q \<noteq> 0 \<and> oid \<noteq> [] \<and>
              oid \<notin> idempotencyLog db \<and> stock p < q"
  have "post_inventory_deduct c \<lparr>productId = Some pid, quantity = Some q, orderId = Some oid\<rparr> db =
          deduct_fresh c pid q oid db"
    using h by (intro post_inventory_deduct_fresh) simp_all
  moreover have "deduct_tx c pid q oid db = Inl (Error ''Insufficient stock or product not found'' None)"
    using h assms(1) by (intro deduct_tx_rejects) auto
  ultimately show "post_inventory_deduct c \<lparr>productId = Some pid, quantity = Some q, orderId = Some oid\<rparr> db =
              \<lparr>inv_after = db,
               inv_reply = \<lparr>inv_status = 400,
                            inv_json = ErrorPayload ''Insufficient stock or product not found''\<rparr>,
               inv_trace = [TxRollback]\<rparr>"
    using deduct_fresh_rollback by simp
qed

theorem stock_never_negative_witness:
  "(\<exists>p'. products (deduct_all
       [(None, \<lparr>productId = Some ''p1'', quantity = Some 7, orderId = Some ''o1''\<rparr>),
        (None, \<lparr>productId = Some ''p1'', quantity = Some 7, orderId = Some ''o2''\<rparr>)]
       \<lparr>products = [''p1'' \<mapsto> \<lparr>name = ''Hyperdrive Unit'', stock = 10\<rparr>], idempotencyLog = {}\<rparr>)
       ''p1'' = Some p' \<and> 0 \<le> stock p') \<and>
   post_inventory_deduct None \<lparr>productId = Some ''p1'', quantity = Some 11, orderId = Some ''o1''\<rparr>
       \<lparr>products = [''p1'' \<mapsto> \<lparr>name = ''Hyperdrive Unit'', stock = 10\<rparr>], idempotencyLog = {}\<rparr> =
     \<lparr>inv_after =
        \<lparr>products = [''p1'' \<mapsto> \<lparr>name = ''Hyperdrive Unit'', stock = 10\<rparr>], idempotencyLog = {}\<rparr>,
      inv_reply = \<lparr>inv_status = 400,
                   inv_json = ErrorPayload ''Insufficient stock or product not found''\<rparr>,
      inv_trace = [TxRollback]\<rparr>"
  using stock_never_negative [of
      "\<lparr>products = [''p1'' \<mapsto> \<lparr>name = ''Hyperdrive Unit'', stock = 10\<rparr>], idempotencyLog = {}\<rparr>"
      "''p1''" "\<lparr>name = ''Hyperdrive Unit'', stock = 10\<rparr>"
      "[(None, \<lparr>productId = Some ''p1'', quantity = Some 7, orderId = Some ''o1''\<rparr>),
        (None, \<lparr>productId = Some ''p1'', quantity = Some 7, orderId = Some ''o2''\<rparr>)]"]
  by (simp add: interrupted_def del: deduct_all.simps)

subsection \<open>The two causes of a failed deduction\<close>

text \<open>
  C6, as the spec states it, does not hold: the guard of the transaction tests a missing
  product and an insufficient stock in one condition and throws one error for both. Here a
  request for a product that does not exist and a request for more than the stock of one that
  does get the same result, response included.
\<close>

theorem failure_causes_counterexample:
  "products \<lparr>products = [''p1'' \<mapsto> \<lparr>name = ''Flux Capacitor'', stock = 2\<rparr>], idempotencyLog = {}\<rparr>
     ''ghost'' = None \<and>
   products \<lparr>products = [''p1'' \<mapsto> \<lparr>name = ''Flux Capacitor'', stock = 2\<rparr>], idempotencyLog = {}\<rparr>
     ''p1'' = Some \<lparr>name = ''Flux Capacitor'', stock = 2\<rparr> \<and>
   post_inventory_deduct None
     \<lparr>productId = Some ''ghost'', quantity = Some 5, orderId = Some ''o1''\<rparr>
     \<lparr>products = [''p1'' \<mapsto> \<lparr>name = ''Flux Capacitor'', stock = 2\<rparr>], idempotencyLog = {}\<rparr>
   = post_inventory_deduct None
     \<lparr>productId = Some ''p1'', quantity = Some 5, orderId = Some ''o1''\<rparr>
     \<lparr>products = [''p1'' \<mapsto> \<lparr>name = ''Flux Capacitor'', stock = 2\<rparr>], idempotencyLog = {}\<rparr>"
  by (simp add: post_inventory_deduct_def falsy_string_def falsy_number_def
        idempotencyLog_findUnique_def deduct_fresh_def transaction_def deduct_tx_def
        interrupted_def product_findUnique_def)

text \<open>
  C6, amended. A valid request with a fresh identifier, not interrupted before the read,
  fails in the same way when the product does not exist and when the product exists with a
  stock below the quantity: status 400 with the one message
  \<^verbatim>\<open>Insufficient stock or product not found\<close>, the store unchanged. The response does not
  tell the two causes apart.
\<close>

theorem failure_causes_merged:
  assumes "pid \<noteq> []" and "q \<noteq> 0" and "oid \<noteq> []" and "oid \<notin> idempotencyLog db"
    and "interrupted c 0 = None"
    and "products db pid = None \<or> (\<exists>p. products db pid = Some p \<and> stock p < q)"
  shows "post_inventory_deduct c
           \<lparr>productId = Some pid, quantity = Some q, orderId = Some oid\<rparr> db =
         \<lparr>inv_after = db,
          inv_reply = \<lparr>inv_status = 400,
                       inv_json = ErrorPayload ''Insufficient stock or product not found''\<rparr>,
          inv_trace = [TxRollback]\<rparr>"
proof -
  have "post_inventory_deduct c \<lparr>productId = Some pid, quantity = Some q, orderId = Some oid\<rparr> db =
          deduct_fresh c pid q oid db"
    using assms(1-4) by (intro post_inventory_deduct_fresh) simp_all
  also have "\<dots> = \<lparr>inv_after = db,
          inv_reply = \<lparr>inv_status = 400,
                       inv_json = ErrorPayload ''Insufficient stock or product not found''\<rparr>,
          inv_trace = [TxRollback]\<rparr>"
    using deduct_fresh_rollback [OF deduct_tx_rejects [OF assms(5,6)]] by simp
  finally show ?thesis .
qed

theorem failure_causes_merged_witness:
  "post_inventory_deduct None
     \<lparr>productId = Some ''nowhere'', quantity = Some 1, orderId = Some ''o9''\<rparr>
     \<lparr>products = Map.empty, idempotencyLog = {}\<rparr> =
   \<lparr>inv_after = \<lparr>products = Map.empty, idempotencyLog = {}\<rparr>,
    inv_reply = \<lparr>inv_status = 400,
                 inv_json = ErrorPayload ''Insufficient stock or product not found''\<rparr>,
    inv_trace = [TxRollback]\<rparr> \<and>
   post_inventory_deduct None
     \<lparr>productId = Some ''p2'', quantity = Some 4, orderId = Some ''o9''\<rparr>
     \<lparr>products = [''p2'' \<mapsto> \<lparr>name = ''Hyperdrive Unit'', stock = 3\<rparr>], idempotencyLog = {}\<rparr> =
   \<lparr>inv_after = \<lparr>products = [''p2'' \<mapsto> \<lparr>name = ''Hyperdrive Unit'', stock = 3\<rparr>],
                  idempotencyLog = {}\<rparr>,
    inv_reply = \<lparr>inv_status = 400,
                 inv_json = ErrorPayload ''Insufficient stock or product not found''\<rparr>,
    inv_trace = [TxRollback]\<rparr>"
  using failure_causes_merged [of "''nowhere''" 1 "''o9''"
      "\<lparr>products = Map.empty, idempotencyLog = {}\<rparr>" None]
    failure_causes_merged [of "''p2''" 4 "''o9''"
      "\<lparr>products = [''p2'' \<mapsto> \<lparr>name = ''Hyperdrive Unit'', stock = 3\<rparr>], idempotencyLog = {}\<rparr>" None]
  by (simp add: interrupted_def)

section \<open>Properties of the order service\<close>

subsection \<open>The paths of the handler\<close>

lemma catch_block_existing:
  assumes "os oid = Some row"
  shows "catch_block error oid os idb tr =
           \<lparr>sys_after = \<lparr>orders = os(oid \<mapsto> row\<lparr>status := FAILED\<rparr>), inventory = idb\<rparr>,
            reply = Some \<lparr>http_status = 503,
                          http_json = FailedPayload
                            (if err_code error = Some ''ECONNABORTED''
                             then ''Order processing timed out waiting for inventory''
                             else ''Order failed due to inventory issue'') oid FAILED\<rparr>,
            trace = tr @ [OrderStatusWrite oid FAILED]\<rparr>"
  using assms by (simp add: catch_block_def order_update_def Let_def)

lemma post_orders_created:
  assumes "productId req = Some pid" and "pid \<noteq> []" and "quantity req = Some q" and "q \<noteq> 0"
    and "orders s (newId e) = None" and "int32 q"
  shows "post_orders e req s =
           (try_block e pid q
              ((orders s)(newId e \<mapsto> \<lparr>o_productId = pid, o_quantity = q, status = PENDING\<rparr>))
              (inventory s))
           \<lparr>trace := OrderCreate (newId e) PENDING #
              trace (try_block e pid q
                ((orders s)(newId e \<mapsto> \<lparr>o_productId = pid, o_quantity = q, status = PENDING\<rparr>))
                (inventory s))\<rparr>"
  using assms
  by (simp add: post_orders_def falsy_string_def falsy_number_def order_create_def Let_def)

lemma try_block_timeout:
  assumes "os (newId e) = Some row" and "net e = Latency ms"
    and "2000 < ms + delay_of (inv_trace (post_inventory_deduct (tx_fault e)
            \<lparr>productId = Some pid, quantity = Some q, orderId = Some (newId e)\<rparr> idb))"
  shows "try_block e pid q os idb =
           \<lparr>sys_after = \<lparr>orders = os(newId e \<mapsto> row\<lparr>status := FAILED\<rparr>),
                          inventory = inv_after (post_inventory_deduct (tx_fault e)
            \<lparr>productId = Some pid, quantity = Some q, orderId = Some (newId e)\<rparr> idb)\<rparr>,
            reply = Some \<lparr>http_status = 503,
                          http_json = FailedPayload
                            ''Order processing timed out waiting for inventory'' (newId e) FAILED\<rparr>,
            trace = [InventoryCall (newId e),
                     OrderStatusWrite (newId e) FAILED]\<rparr>"
  using assms
  by (simp add: try_block_def axios_post_deduct_def Let_def catch_block_existing)

lemma try_block_rejected:
  assumes "os (newId e) = Some row" and "net e = Latency ms"
    and "ms + delay_of (inv_trace (post_inventory_deduct (tx_fault e)
            \<lparr>productId = Some pid, quantity = Some q, orderId = Some (newId e)\<rparr> idb)) \<le> 2000"
    and "inv_status (inv_reply (post_inventory_deduct (tx_fault e)
            \<lparr>productId = Some pid, quantity = Some q, orderId = Some (newId e)\<rparr> idb)) \<noteq> 200"
  shows "try_block e pid q os idb =
           \<lparr>sys_after = \<lparr>orders = os(newId e \<mapsto> row\<lparr>status := FAILED\<rparr>),
                          inventory = inv_after (post_inventory_deduct (tx_fault e)
            \<lparr>productId = Some pid, quantity = Some q, orderId = Some (newId e)\<rparr> idb)\<rparr>,
            reply = Some \<lparr>http_status = 503,
                          http_json = FailedPayload
                            ''Order failed due to inventory issue'' (newId e) FAILED\<rparr>,
            trace = [InventoryCall (newId e),
                     OrderStatusWrite (newId e) FAILED]\<rparr>"
  using assms
  by (simp add: try_block_def axios_post_deduct_def Let_def catch_block_existing)

lemma try_block_confirmed:
  assumes "os (newId e) = Some row" and "net e = Latency ms"
    and "ms + delay_of (inv_trace (post_inventory_deduct (tx_fault e)
            \<lparr>productId = Some pid, quantity = Some q, orderId = Some (newId e)\<rparr> idb)) \<le> 2000"
    and "inv_status (inv_reply (post_inventory_deduct (tx_fault e)
            \<lparr>productId = Some pid, quantity = Some q, orderId = Some (newId e)\<rparr> idb)) = 200"
  shows "try_block e pid q os idb =
           \<lparr>sys_after = \<lparr>orders = os(newId e \<mapsto> row\<lparr>status := CONFIRMED\<rparr>),
                          inventory = inv_after (post_inventory_deduct (tx_fault e)
            \<lparr>productId = Some pid, quantity = Some q, orderId = Some (newId e)\<rparr> idb)\<rparr>,
            reply = Some \<lparr>http_status = 201,
                          http_json = OrderPayload (newId e) (row\<lparr>status := CONFIRMED\<rparr>)\<rparr>,
            trace = [InventoryCall (newId e),
                     OrderStatusWrite (newId e) CONFIRMED]\<rparr>"
  using assms
  by (simp add: try_block_def axios_post_deduct_def Let_def order_update_def)

lemma try_block_unreachable:
  assumes "os (newId e) = Some row" and "net e = NetError c"
  shows "try_block e pid q os idb =
           \<lparr>sys_after = \<lparr>orders = os(newId e \<mapsto> row\<lparr>status := FAILED\<rparr>), inventory = idb\<rparr>,
            reply = Some \<lparr>http_status = 503,
                          http_json = FailedPayload
                            (if c = ''ECONNABORTED''
                             then ''Order processing timed out waiting for inventory''
                             else ''Order failed due to inventory issue'') (newId e) FAILED\<rparr>,
            trace = [InventoryCall (newId e),
                     OrderStatusWrite (newId e) FAILED]\<rparr>"
  using assms
  by (simp add: try_block_def axios_post_deduct_def Let_def catch_block_existing)

lemma post_orders_invalid:
  assumes "falsy_string (productId req) \<or> falsy_number (quantity req)"
  shows "post_orders e req s =
           \<lparr>sys_after = s,
            reply = Some \<lparr>http_status = 400,
                          http_json = InvalidPayload ''Missing productId or quantity''\<rparr>,
            trace = []\<rparr>"
  using assms by (simp add: post_orders_def)

lemma post_orders_rejected:
  assumes "productId req = Some pid" and "pid \<noteq> []" and "quantity req = Some q" and "q \<noteq> 0"
    and "orders s (newId e) \<noteq> None \<or> \<not> int32 q"
  shows "post_orders e req s = \<lparr>sys_after = s, reply = None, trace = []\<rparr>"
  using assms
  by (auto simp: post_orders_def falsy_string_def falsy_number_def order_create_def Let_def)

lemma try_block_cases:
  assumes "os (newId e) = Some row"
  shows "\<exists>idb' st resp.
           (st = CONFIRMED \<and>
              resp = \<lparr>http_status = 201,
                      http_json = OrderPayload (newId e) (row\<lparr>status := CONFIRMED\<rparr>)\<rparr> \<or>
            st = FAILED \<and>
              (\<exists>msg. resp = \<lparr>http_status = 503,
                             http_json = FailedPayload msg (newId e) FAILED\<rparr>)) \<and>
           try_block e pid q os idb =
             \<lparr>sys_after = \<lparr>orders = os(newId e \<mapsto> row\<lparr>status := st\<rparr>), inventory = idb'\<rparr>,
              reply = Some resp,
              trace = [InventoryCall (newId e), OrderStatusWrite (newId e) st]\<rparr>"
proof (cases "net e")
  case (NetError c)
  show ?thesis
    using try_block_unreachable [where os = os and e = e and pid = pid and q = q and idb = idb, OF assms NetError] by blast
next
  case (Latency ms)
  let ?r = "post_inventory_deduct (tx_fault e)
              \<lparr>productId = Some pid, quantity = Some q, orderId = Some (newId e)\<rparr> idb"
  consider (late) "2000 < ms + delay_of (inv_trace ?r)"
    | (bad) "ms + delay_of (inv_trace ?r) \<le> 2000" "inv_status (inv_reply ?r) \<noteq> 200"
    | (good) "ms + delay_of (inv_trace ?r) \<le> 2000" "inv_status (inv_reply ?r) = 200"
    by linarith
  then show ?thesis
  proof cases
    case late
    show ?thesis using try_block_timeout [where os = os and e = e, OF assms Latency late] by blast
  next
    case bad
    show ?thesis using try_block_rejected [where os = os and e = e, OF assms Latency bad] by blast
  next
    case good
    show ?thesis using try_block_confirmed [where os = os and e = e, OF assms Latency good] by blast
  qed
qed

lemma post_orders_saga:
  assumes "productId req = Some pid" and "pid \<noteq> []" and "quantity req = Some q" and "q \<noteq> 0"
    and "orders s (newId e) = None" and "int32 q"
  shows "\<exists>idb' st resp.
      (st = CONFIRMED \<and>
         resp = \<lparr>http_status = 201,
                 http_json = OrderPayload (newId e)
                   \<lparr>o_productId = pid, o_quantity = q, status = CONFIRMED\<rparr>\<rparr> \<or>
       st = FAILED \<and>
         (\<exists>msg. resp = \<lparr>http_status = 503,
                        http_json = FailedPayload msg (newId e) FAILED\<rparr>)) \<and>
      post_orders e req s =
        \<lparr>sys_after =
           \<lparr>orders = (orders s)(newId e \<mapsto> \<lparr>o_productId = pid, o_quantity = q, status = st\<rparr>),
            inventory = idb'\<rparr>,
         reply = Some resp,
         trace = [OrderCreate (newId e) PENDING, InventoryCall (newId e),
                  OrderStatusWrite (newId e) st]\<rparr>"
proof -
  let ?row = "\<lparr>o_productId = pid, o_quantity = q, status = PENDING\<rparr>"
  let ?os = "(orders s)(newId e \<mapsto> ?row)"
  have "?os (newId e) = Some ?row" by simp
  from try_block_cases [where os = "?os" and e = e and pid = pid and q = q
      and idb = "inventory s", OF this]
  obtain idb' st resp where t:
    "st = CONFIRMED \<and>
       resp = \<lparr>http_status = 201,
               http_json = OrderPayload (newId e) (?row\<lparr>status := CONFIRMED\<rparr>)\<rparr> \<or>
     st = FAILED \<and>
       (\<exists>msg. resp = \<lparr>http_status = 503,
                      http_json = FailedPayload msg (newId e) FAILED\<rparr>)"
    "try_block e pid q ?os (inventory s) =
       \<lparr>sys_after = \<lparr>orders = ?os(newId e \<mapsto> ?row\<lparr>status := st\<rparr>), inventory = idb'\<rparr>,
        reply = Some resp,
        trace = [InventoryCall (newId e), OrderStatusWrite (newId e) st]\<rparr>"
    by blast
  have "post_orders e req s =
          (try_block e pid q ?os (inventory s))
          \<lparr>trace := OrderCreate (newId e) PENDING # trace (try_block e pid q ?os (inventory s))\<rparr>"
    using post_orders_created [OF assms] .
  with t show ?thesis by auto
qed

lemma post_orders_cases:
  "post_orders e req s =
     \<lparr>sys_after = s,
      reply = Some \<lparr>http_status = 400,
                    http_json = InvalidPayload ''Missing productId or quantity''\<rparr>,
      trace = []\<rparr> \<and> (falsy_string (productId req) \<or> falsy_number (quantity req)) \<or>
   post_orders e req s = \<lparr>sys_after = s, reply = None, trace = []\<rparr> \<or>
   (\<exists>pid q idb' st resp.
      productId req = Some pid \<and> pid \<noteq> [] \<and> quantity req = Some q \<and> q \<noteq> 0 \<and>
      int32 q \<and> orders s (newId e) = None \<and>
      (st = CONFIRMED \<and>
         resp = \<lparr>http_status = 201,
                 http_json = OrderPayload (newId e)
                   \<lparr>o_productId = pid, o_quantity = q, status = CONFIRMED\<rparr>\<rparr> \<or>
       st = FAILED \<and>
         (\<exists>msg. resp = \<lparr>http_status = 503,
                        http_json = FailedPayload msg (newId e) FAILED\<rparr>)) \<and>
      post_orders e req s =
        \<lparr>sys_after =
           \<lparr>orders = (orders s)(newId e \<mapsto> \<lparr>o_productId = pid, o_quantity = q, status = st\<rparr>),
            inventory = idb'\<rparr>,
         reply = Some resp,
         trace = [OrderCreate (newId e) PENDING, InventoryCall (newId e),
                  OrderStatusWrite (newId e) st]\<rparr>)"
proof (cases "falsy_string (productId req) \<or> falsy_number (quantity req)")
  case True
  then show ?thesis using post_orders_invalid by blast
next
  case False
  then obtain pid q where f: "productId req = Some pid" "pid \<noteq> []" "quantity req = Some q"
    "q \<noteq> 0"
    by (auto simp: falsy_string_def falsy_number_def split: option.splits)
  show ?thesis
  proof (cases "orders s (newId e) \<noteq> None \<or> \<not> int32 q")
    case True
    show ?thesis using post_orders_rejected [OF f True] by blast
  next
    case False
    then have None: "orders s (newId e) = None" and range: "int32 q" by simp_all
    from post_orders_saga [OF f None range] f None range show ?thesis by blast
  qed
qed

lemma post_orders_keeps:
  assumes "orders s oid = Some row"
  shows "orders (sys_after (post_orders e req s)) oid = Some row"
  using post_orders_cases [of e req s] assms
  by (cases "oid = newId e") auto

lemma step_keeps:
  assumes "orders s oid = Some row"
  shows "orders (step r s) oid = Some row"
  using assms by (cases r) (simp_all add: post_orders_keeps)

lemma run_keeps:
  assumes "orders s oid = Some row"
  shows "orders (run rs s) oid = Some row"
  using assms by (induction rs arbitrary: s) (simp_all add: step_keeps)

lemma post_orders_late:
  assumes "productId req = Some pid" and "pid \<noteq> []" and "quantity req = Some q" and "q \<noteq> 0"
    and "orders s (newId e) = None" and "net e = Latency ms"
    and "2000 < ms + delay_of (inv_trace (post_inventory_deduct (tx_fault e)
            \<lparr>productId = Some pid, quantity = Some q, orderId = Some (newId e)\<rparr> (inventory s)))"
    and "int32 q"
  shows "post_orders e req s =
           \<lparr>sys_after =
              \<lparr>orders = (orders s)(newId e \<mapsto>
                  \<lparr>o_productId = pid, o_quantity = q, status = FAILED\<rparr>),
               inventory = inv_after (post_inventory_deduct (tx_fault e)
                  \<lparr>productId = Some pid, quantity = Some q, orderId = Some (newId e)\<rparr>
                  (inventory s))\<rparr>,
            reply = Some \<lparr>http_status = 503,
                          http_json = FailedPayload
                            ''Order processing timed out waiting for inventory''
                            (newId e) FAILED\<rparr>,
            trace = [OrderCreate (newId e) PENDING, InventoryCall (newId e),
                     OrderStatusWrite (newId e) FAILED]\<rparr>"
proof -
  let ?row = "\<lparr>o_productId = pid, o_quantity = q, status = PENDING\<rparr>"
  let ?os = "(orders s)(newId e \<mapsto> ?row)"
  have row: "?os (newId e) = Some ?row" by simp
  show ?thesis
    unfolding post_orders_created [OF assms(1-5) assms(8)]
      try_block_timeout [where os = "?os" and e = e and pid = pid and q = q
        and idb = "inventory s", OF row assms(6,7)]
    by simp
qed

lemma post_orders_in_time:
  assumes "productId req = Some pid" and "pid \<noteq> []" and "quantity req = Some q" and "q \<noteq> 0"
    and "orders s (newId e) = None" and "net e = Latency ms"
    and "ms + delay_of (inv_trace (post_inventory_deduct (tx_fault e)
            \<lparr>productId = Some pid, quantity = Some q, orderId = Some (newId e)\<rparr> (inventory s)))
         \<le> 2000"
    and "inv_status (inv_reply (post_inventory_deduct (tx_fault e)
            \<lparr>productId = Some pid, quantity = Some q, orderId = Some (newId e)\<rparr> (inventory s)))
         = 200"
    and "int32 q"
  shows "post_orders e req s =
           \<lparr>sys_after =
              \<lparr>orders = (orders s)(newId e \<mapsto>
                  \<lparr>o_productId = pid, o_quantity = q, status = CONFIRMED\<rparr>),
               inventory = inv_after (post_inventory_deduct (tx_fault e)
                  \<lparr>productId = Some pid, quantity = Some q, orderId = Some (newId e)\<rparr>
                  (inventory s))\<rparr>,
            reply = Some \<lparr>http_status = 201,
                          http_json = OrderPayload (newId e)
                            \<lparr>o_productId = pid, o_quantity = q, status = CONFIRMED\<rparr>\<rparr>,
            trace = [OrderCreate (newId e) PENDING, InventoryCall (newId e),
                     OrderStatusWrite (newId e) CONFIRMED]\<rparr>"
proof -
  let ?row = "\<lparr>o_productId = pid, o_quantity = q, status = PENDING\<rparr>"
  let ?os = "(orders s)(newId e \<mapsto> ?row)"
  have row: "?os (newId e) = Some ?row" by simp
  show ?thesis
    unfolding post_orders_created [OF assms(1-5) assms(9)]
      try_block_confirmed [where os = "?os" and e = e and pid = pid and q = q
        and idb = "inventory s", OF row assms(6,7,8)]
    by simp
qed

subsection \<open>Timeout classification\<close>

text \<open>
  C4. For a valid order request (its quantity one the order column holds, its order created
  under a fresh identifier) whose call reaches the inventory handler: when the response takes longer than the 2000 ms deadline,
  whatever the handler did and answered, the order ends \<^verbatim>\<open>FAILED\<close> and the 503 response
  carries the reason \<^verbatim>\<open>Order processing timed out waiting for inventory\<close> and the order
  identifier. When the response comes in time and is not a 200, the order ends \<^verbatim>\<open>FAILED\<close>
  with the reason \<^verbatim>\<open>Order failed due to inventory issue\<close>, a different text.
\<close>

theorem timeout_classification:
  assumes "productId req = Some pid" and "pid \<noteq> []" and "quantity req = Some q" and "q \<noteq> 0"
    and "orders s (newId e) = None" and "net e = Latency ms" and "int32 q"
  shows "let r = post_inventory_deduct (tx_fault e)
                   \<lparr>productId = Some pid, quantity = Some q, orderId = Some (newId e)\<rparr>
                   (inventory s)
         in (2000 < ms + delay_of (inv_trace r) \<longrightarrow>
               post_orders e req s =
                 \<lparr>sys_after =
                    \<lparr>orders = (orders s)(newId e \<mapsto>
                        \<lparr>o_productId = pid, o_quantity = q, status = FAILED\<rparr>),
                     inventory = inv_after r\<rparr>,
                  reply = Some \<lparr>http_status = 503,
                                http_json = FailedPayload
                                  ''Order processing timed out waiting for inventory''
                                  (newId e) FAILED\<rparr>,
                  trace = [OrderCreate (newId e) PENDING, InventoryCall (newId e),
                           OrderStatusWrite (newId e) FAILED]\<rparr>) \<and>
            (ms + delay_of (inv_trace r) \<le> 2000 \<and> inv_status (inv_reply r) \<noteq> 200 \<longrightarrow>
               post_orders e req s =
                 \<lparr>sys_after =
                    \<lparr>orders = (orders s)(newId e \<mapsto>
                        \<lparr>o_productId = pid, o_quantity = q, status = FAILED\<rparr>),
                     inventory = inv_after r\<rparr>,
                  reply = Some \<lparr>http_status = 503,
                                http_json = FailedPayload
                                  ''Order failed due to inventory issue''
                                  (newId e) FAILED\<rparr>,
                  trace = [OrderCreate (newId e) PENDING, InventoryCall (newId e),
                           OrderStatusWrite (newId e) FAILED]\<rparr>) \<and>
            ''Order processing timed out waiting for inventory'' \<noteq>
              ''Order failed due to inventory issue''"
proof -
  let ?row = "\<lparr>o_productId = pid, o_quantity = q, status = PENDING\<rparr>"
  let ?os = "(orders s)(newId e \<mapsto> ?row)"
  have row: "?os (newId e) = Some ?row" by simp
  have created: "post_orders e req s =
      (try_block e pid q ?os (inventory s))
      \<lparr>trace := OrderCreate (newId e) PENDING # trace (try_block e pid q ?os (inventory s))\<rparr>"
    using post_orders_created [OF assms(1-5) assms(7)] .
  show ?thesis
    unfolding Let_def created
    using try_block_timeout [where os = "?os" and e = e and pid = pid and q = q
        and idb = "inventory s", OF row assms(6)]
      try_block_rejected [where os = "?os" and e = e and pid = pid and q = q
        and idb = "inventory s", OF row assms(6)]
    by simp
qed

theorem timeout_classification_witness:
  "post_orders \<lparr>newId = ''ord-1'', net = Latency 2500, tx_fault = None\<rparr>
     \<lparr>productId = Some ''p1'', quantity = Some 2, orderId = None\<rparr>
     \<lparr>orders = Map.empty,
      inventory = \<lparr>products = [''p1'' \<mapsto> \<lparr>name = ''Neural Interface'', stock = 50\<rparr>],
                   idempotencyLog = {}\<rparr>\<rparr>
   = \<lparr>sys_after =
        \<lparr>orders = [''ord-1'' \<mapsto> \<lparr>o_productId = ''p1'', o_quantity = 2, status = FAILED\<rparr>],
         inventory = \<lparr>products = [''p1'' \<mapsto> \<lparr>name = ''Neural Interface'', stock = 48\<rparr>],
                      idempotencyLog = {''ord-1''}\<rparr>\<rparr>,
      reply = Some \<lparr>http_status = 503,
                    http_json = FailedPayload
                      ''Order processing timed out waiting for inventory'' ''ord-1'' FAILED\<rparr>,
      trace = [OrderCreate ''ord-1'' PENDING, InventoryCall ''ord-1'',
               OrderStatusWrite ''ord-1'' FAILED]\<rparr>"
proof -
  have r: "post_inventory_deduct None
             \<lparr>productId = Some ''p1'', quantity = Some 2, orderId = Some ''ord-1''\<rparr>
             \<lparr>products = [''p1'' \<mapsto> \<lparr>name = ''Neural Interface'', stock = 50\<rparr>],
              idempotencyLog = {}\<rparr>
           = \<lparr>inv_after = \<lparr>products = [''p1'' \<mapsto> \<lparr>name = ''Neural Interface'', stock = 48\<rparr>],
                      idempotencyLog = {''ord-1''}\<rparr>,
              inv_reply = \<lparr>inv_status = 200, inv_json = SuccessPayload ''Stock deducted''\<rparr>,
              inv_trace = [TxCommit]\<rparr>"
    by (simp add: post_inventory_deduct_def falsy_string_def falsy_number_def
          idempotencyLog_findUnique_def deduct_fresh_def transaction_def deduct_tx_def
          interrupted_def product_findUnique_def product_update_def idempotencyLog_create_def
          int32_def)
  show ?thesis
    using timeout_classification [of
        "\<lparr>productId = Some ''p1'', quantity = Some 2, orderId = None\<rparr>" "''p1''" 2
        "\<lparr>orders = Map.empty,
          inventory = \<lparr>products = [''p1'' \<mapsto> \<lparr>name = ''Neural Interface'', stock = 50\<rparr>],
                       idempotencyLog = {}\<rparr>\<rparr>"
        "\<lparr>newId = ''ord-1'', net = Latency 2500, tx_fault = None\<rparr>" 2500]
    by (simp add: Let_def int32_def r)
qed

subsection \<open>Successful confirmation\<close>

text \<open>
  C5. For a valid order request (its quantity one the order column holds, its order created
  under a fresh identifier): when the handler answers \<^verbatim>\<open>Stock deducted\<close> or \<^verbatim>\<open>Stock already deducted (Idempotent)\<close> within
  the deadline, the order goes from \<^verbatim>\<open>PENDING\<close> to \<^verbatim>\<open>CONFIRMED\<close> and the 201 response
  returns the confirmed order. In particular, for a product with stock 100 and an order of
  quantity 1, with an undisturbed transaction and a network within the deadline, the order
  ends \<^verbatim>\<open>CONFIRMED\<close> and the product's stock is 99.
\<close>

theorem order_confirmed:
  assumes "productId req = Some pid" and "pid \<noteq> []" and "quantity req = Some q" and "q \<noteq> 0"
    and "orders s (newId e) = None" and "net e = Latency ms"
  shows "let r = post_inventory_deduct (tx_fault e)
                   \<lparr>productId = Some pid, quantity = Some q, orderId = Some (newId e)\<rparr>
                   (inventory s)
         in (int32 q \<and> ms + delay_of (inv_trace r) \<le> 2000 \<and>
             (inv_json (inv_reply r) = SuccessPayload ''Stock deducted'' \<or>
              inv_json (inv_reply r) = SuccessPayload ''Stock already deducted (Idempotent)'') \<longrightarrow>
               post_orders e req s =
                 \<lparr>sys_after =
                    \<lparr>orders = (orders s)(newId e \<mapsto>
                        \<lparr>o_productId = pid, o_quantity = q, status = CONFIRMED\<rparr>),
                     inventory = inv_after r\<rparr>,
                  reply = Some \<lparr>http_status = 201,
                                http_json = OrderPayload (newId e)
                                  \<lparr>o_productId = pid, o_quantity = q, status = CONFIRMED\<rparr>\<rparr>,
                  trace = [OrderCreate (newId e) PENDING, InventoryCall (newId e),
                           OrderStatusWrite (newId e) CONFIRMED]\<rparr>) \<and>
            (\<forall>p. q = 1 \<and> products (inventory s) pid = Some p \<and> stock p = 100 \<and>
                 newId e \<noteq> [] \<and> newId e \<notin> idempotencyLog (inventory s) \<and>
                 tx_fault e = None \<and> ms \<le> 2000 \<longrightarrow>
               orders (sys_after (post_orders e req s)) (newId e) =
                 Some \<lparr>o_productId = pid, o_quantity = 1, status = CONFIRMED\<rparr> \<and>
               products (inventory (sys_after (post_orders e req s))) pid =
                 Some (p\<lparr>stock := 99\<rparr>))"
proof -
  let ?row = "\<lparr>o_productId = pid, o_quantity = q, status = PENDING\<rparr>"
  let ?os = "(orders s)(newId e \<mapsto> ?row)"
  let ?b = "\<lparr>productId = Some pid, quantity = Some q, orderId = Some (newId e)\<rparr>"
  let ?r = "post_inventory_deduct (tx_fault e) ?b (inventory s)"
  let ?t = "(try_block e pid q ?os (inventory s))
      \<lparr>trace := OrderCreate (newId e) PENDING # trace (try_block e pid q ?os (inventory s))\<rparr>"
  have row: "?os (newId e) = Some ?row" by simp
  have created: "post_orders e req s = ?t" if "int32 q"
    using post_orders_created [OF assms(1-5) that] .
  note conf = try_block_confirmed [where os = "?os" and e = e and pid = pid and q = q
        and idb = "inventory s", OF row assms(6)]
  have ok: "inv_status (inv_reply ?r) = 200"
    if "inv_json (inv_reply ?r) = SuccessPayload ''Stock deducted'' \<or>
        inv_json (inv_reply ?r) = SuccessPayload ''Stock already deducted (Idempotent)''"
    using post_inventory_deduct_status [of "tx_fault e" ?b "inventory s"] that by auto
  have general: "int32 q \<and> ms + delay_of (inv_trace ?r) \<le> 2000 \<and>
             (inv_json (inv_reply ?r) = SuccessPayload ''Stock deducted'' \<or>
              inv_json (inv_reply ?r) = SuccessPayload ''Stock already deducted (Idempotent)'') \<longrightarrow>
               post_orders e req s =
                 \<lparr>sys_after =
                    \<lparr>orders = (orders s)(newId e \<mapsto>
                        \<lparr>o_productId = pid, o_quantity = q, status = CONFIRMED\<rparr>),
                     inventory = inv_after ?r\<rparr>,
                  reply = Some \<lparr>http_status = 201,
                                http_json = OrderPayload (newId e)
                                  \<lparr>o_productId = pid, o_quantity = q, status = CONFIRMED\<rparr>\<rparr>,
                  trace = [OrderCreate (newId e) PENDING, InventoryCall (newId e),
                           OrderStatusWrite (newId e) CONFIRMED]\<rparr>"
    using created conf ok by simp
  have scenario: "orders (sys_after (post_orders e req s)) (newId e) =
                 Some \<lparr>o_productId = pid, o_quantity = 1, status = CONFIRMED\<rparr> \<and>
               products (inventory (sys_after (post_orders e req s))) pid =
                 Some (p\<lparr>stock := 99\<rparr>)"
    if h: "q = 1 \<and> products (inventory s) pid = Some p \<and> stock p = 100 \<and>
                 newId e \<noteq> [] \<and> newId e \<notin> idempotencyLog (inventory s) \<and>
                 tx_fault e = None \<and> ms \<le> 2000" for p
  proof -
    have "?r = deduct_fresh None pid q (newId e) (inventory s)"
      using h assms(2,4) by (simp add: post_inventory_deduct_fresh)
    also have "\<dots> = \<lparr>inv_after = \<lparr>products = (products (inventory s))(pid \<mapsto> p\<lparr>stock := stock p - q\<rparr>),
                         idempotencyLog = insert (newId e) (idempotencyLog (inventory s))\<rparr>,
            inv_reply = \<lparr>inv_status = 200, inv_json = SuccessPayload ''Stock deducted''\<rparr>,
            inv_trace = TxCommit # (if q = 13 then [Delay 5000] else [])\<rparr>"
      using h by (intro deduct_fresh_commit) (simp_all add: int32_def)
    finally have r: "?r = \<lparr>inv_after = \<lparr>products = (products (inventory s))(pid \<mapsto> p\<lparr>stock := 99\<rparr>),
                         idempotencyLog = insert (newId e) (idempotencyLog (inventory s))\<rparr>,
            inv_reply = \<lparr>inv_status = 200, inv_json = SuccessPayload ''Stock deducted''\<rparr>,
            inv_trace = [TxCommit]\<rparr>"
      using h by simp
    have ms: "ms \<le> 2000" and q: "q = 1" using h by simp_all
    have d: "ms + delay_of (inv_trace ?r) \<le> 2000" using ms by (simp add: r)
    have st: "inv_status (inv_reply ?r) = 200" by (simp add: r)
    have after: "inv_after ?r =
        \<lparr>products = (products (inventory s))(pid \<mapsto> p\<lparr>stock := 99\<rparr>),
         idempotencyLog = insert (newId e) (idempotencyLog (inventory s))\<rparr>"
      by (simp add: r)
    have "int32 q" by (simp add: q int32_def)
    show ?thesis unfolding created [OF \<open>int32 q\<close>] conf [OF d st] after by (simp add: q)
  qed
  show ?thesis
    unfolding Let_def using general scenario by blast
qed

theorem order_confirmed_witness:
  "post_orders \<lparr>newId = ''ord-7'', net = Latency 40, tx_fault = None\<rparr>
     \<lparr>productId = Some ''P'', quantity = Some 1, orderId = None\<rparr>
     \<lparr>orders = Map.empty,
      inventory = \<lparr>products = [''P'' \<mapsto> \<lparr>name = ''Quantum Processor'', stock = 100\<rparr>],
                   idempotencyLog = {}\<rparr>\<rparr>
   = \<lparr>sys_after =
        \<lparr>orders = [''ord-7'' \<mapsto> \<lparr>o_productId = ''P'', o_quantity = 1, status = CONFIRMED\<rparr>],
         inventory = \<lparr>products = [''P'' \<mapsto> \<lparr>name = ''Quantum Processor'', stock = 99\<rparr>],
                      idempotencyLog = {''ord-7''}\<rparr>\<rparr>,
      reply = Some \<lparr>http_status = 201,
                    http_json = OrderPayload ''ord-7''
                      \<lparr>o_productId = ''P'', o_quantity = 1, status = CONFIRMED\<rparr>\<rparr>,
      trace = [OrderCreate ''ord-7'' PENDING, InventoryCall ''ord-7'',
               OrderStatusWrite ''ord-7'' CONFIRMED]\<rparr>"
proof -
  have r: "post_inventory_deduct None
             \<lparr>productId = Some ''P'', quantity = Some 1, orderId = Some ''ord-7''\<rparr>
             \<lparr>products = [''P'' \<mapsto> \<lparr>name = ''Quantum Processor'', stock = 100\<rparr>],
              idempotencyLog = {}\<rparr>
           = \<lparr>inv_after = \<lparr>products = [''P'' \<mapsto> \<lparr>name = ''Quantum Processor'', stock = 99\<rparr>],
                      idempotencyLog = {''ord-7''}\<rparr>,
              inv_reply = \<lparr>inv_status = 200, inv_json = SuccessPayload ''Stock deducted''\<rparr>,
              inv_trace = [TxCommit]\<rparr>"
    by (simp add: post_inventory_deduct_def falsy_string_def falsy_number_def
          idempotencyLog_findUnique_def deduct_fresh_def transaction_def deduct_tx_def
          interrupted_def product_findUnique_def product_update_def idempotencyLog_create_def
          int32_def)
  show ?thesis
    using order_confirmed [of
        "\<lparr>productId = Some ''P'', quantity = Some 1, orderId = None\<rparr>" "''P''" 1
        "\<lparr>orders = Map.empty,
          inventory = \<lparr>products = [''P'' \<mapsto> \<lparr>name = ''Quantum Processor'', stock = 100\<rparr>],
                       idempotencyLog = {}\<rparr>\<rparr>"
        "\<lparr>newId = ''ord-7'', net = Latency 40, tx_fault = None\<rparr>" 40]
    by (simp add: Let_def int32_def r)
qed

subsection \<open>The injected delay\<close>

text \<open>
  C7. In every run of the deduction handler, a sleep occurs only as the 5000 ms that follow
  a committed transaction of a request whose quantity is 13; every other run sleeps for
  nothing. A valid request of quantity 13 with a fresh identifier, for a product whose stock
  (a value of the column) covers it, leaves the store with exactly the decrement and the log entry that the
  transaction committed before the sleep. An order of quantity 13 for such a product, the
  deadline being 2000 ms, therefore ends \<^verbatim>\<open>FAILED\<close> with the timeout reason, whatever the
  network latency, while the stock is decremented by 13 and the identifier is logged.
\<close>

theorem delay_frame:
  "(inv_trace (post_inventory_deduct c req db) = [TxCommit, Delay 5000] \<and>
      quantity req = Some 13 \<and> delay_of (inv_trace (post_inventory_deduct c req db)) = 5000 \<or>
    (\<forall>ms. Delay ms \<notin> set (inv_trace (post_inventory_deduct c req db))) \<and>
      delay_of (inv_trace (post_inventory_deduct c req db)) = 0 \<and>
      (quantity req \<noteq> Some 13 \<or> TxCommit \<notin> set (inv_trace (post_inventory_deduct c req db)))) \<and>
   (\<forall>pid oid p. pid \<noteq> [] \<and> oid \<noteq> [] \<and> oid \<notin> idempotencyLog db \<and>
       products db pid = Some p \<and> 13 \<le> stock p \<and> int32 (stock p) \<longrightarrow>
       post_inventory_deduct None
         \<lparr>productId = Some pid, quantity = Some 13, orderId = Some oid\<rparr> db =
       \<lparr>inv_after = \<lparr>products = (products db)(pid \<mapsto> p\<lparr>stock := stock p - 13\<rparr>),
                      idempotencyLog = insert oid (idempotencyLog db)\<rparr>,
        inv_reply = \<lparr>inv_status = 200, inv_json = SuccessPayload ''Stock deducted''\<rparr>,
        inv_trace = [TxCommit, Delay 5000]\<rparr>) \<and>
   (\<forall>e s pid p ms. pid \<noteq> [] \<and> newId e \<noteq> [] \<and> orders s (newId e) = None \<and>
       newId e \<notin> idempotencyLog (inventory s) \<and> inventory s = db \<and>
       products db pid = Some p \<and> 13 \<le> stock p \<and> int32 (stock p) \<and>
       net e = Latency ms \<and> tx_fault e = None \<longrightarrow>
       post_orders e \<lparr>productId = Some pid, quantity = Some 13, orderId = None\<rparr> s =
       \<lparr>sys_after =
          \<lparr>orders = (orders s)(newId e \<mapsto>
              \<lparr>o_productId = pid, o_quantity = 13, status = FAILED\<rparr>),
           inventory = \<lparr>products = (products db)(pid \<mapsto> p\<lparr>stock := stock p - 13\<rparr>),
                        idempotencyLog = insert (newId e) (idempotencyLog db)\<rparr>\<rparr>,
        reply = Some \<lparr>http_status = 503,
                      http_json = FailedPayload
                        ''Order processing timed out waiting for inventory'' (newId e) FAILED\<rparr>,
        trace = [OrderCreate (newId e) PENDING, InventoryCall (newId e),
                 OrderStatusWrite (newId e) FAILED]\<rparr>)"
proof (intro conjI allI impI)
  show "inv_trace (post_inventory_deduct c req db) = [TxCommit, Delay 5000] \<and>
      quantity req = Some 13 \<and> delay_of (inv_trace (post_inventory_deduct c req db)) = 5000 \<or>
    (\<forall>ms. Delay ms \<notin> set (inv_trace (post_inventory_deduct c req db))) \<and>
      delay_of (inv_trace (post_inventory_deduct c req db)) = 0 \<and>
      (quantity req \<noteq> Some 13 \<or> TxCommit \<notin> set (inv_trace (post_inventory_deduct c req db)))"
    using post_inventory_deduct_trace [of c req db] by (auto split: if_splits)
next
  fix pid oid p
  assume h: "pid \<noteq> [] \<and> oid \<noteq> [] \<and> oid \<notin> idempotencyLog db \<and>
       products db pid = Some p \<and> 13 \<le> stock p \<and> int32 (stock p)"
  have "post_inventory_deduct None
         \<lparr>productId = Some pid, quantity = Some 13, orderId = Some oid\<rparr> db =
        deduct_fresh None pid 13 oid db"
    using h by (intro post_inventory_deduct_fresh) simp_all
  also have "\<dots> = \<lparr>inv_after = \<lparr>products = (products db)(pid \<mapsto> p\<lparr>stock := stock p - 13\<rparr>),
                      idempotencyLog = insert oid (idempotencyLog db)\<rparr>,
        inv_reply = \<lparr>inv_status = 200, inv_json = SuccessPayload ''Stock deducted''\<rparr>,
        inv_trace = TxCommit # (if (13::int) = 13 then [Delay 5000] else [])\<rparr>"
    using h by (intro deduct_fresh_commit) (simp_all add: int32_def)
  finally show "post_inventory_deduct None
         \<lparr>productId = Some pid, quantity = Some 13, orderId = Some oid\<rparr> db =
       \<lparr>inv_after = \<lparr>products = (products db)(pid \<mapsto> p\<lparr>stock := stock p - 13\<rparr>),
                      idempotencyLog = insert oid (idempotencyLog db)\<rparr>,
        inv_reply = \<lparr>inv_status = 200, inv_json = SuccessPayload ''Stock deducted''\<rparr>,
        inv_trace = [TxCommit, Delay 5000]\<rparr>" by simp
next
  fix e :: env and s :: system and pid p ms
  assume h: "pid \<noteq> [] \<and> newId e \<noteq> [] \<and> orders s (newId e) = None \<and>
       newId e \<notin> idempotencyLog (inventory s) \<and> inventory s = db \<and>
       products db pid = Some p \<and> 13 \<le> stock p \<and> int32 (stock p) \<and>
       net e = Latency ms \<and> tx_fault e = None"
  let ?req = "\<lparr>productId = Some pid, quantity = Some 13, orderId = None\<rparr>"
  let ?b = "\<lparr>productId = Some pid, quantity = Some 13, orderId = Some (newId e)\<rparr>"
  have "post_inventory_deduct None ?b db = deduct_fresh None pid 13 (newId e) db"
    using h by (intro post_inventory_deduct_fresh) auto
  also have "\<dots> = \<lparr>inv_after = \<lparr>products = (products db)(pid \<mapsto> p\<lparr>stock := stock p - 13\<rparr>),
                      idempotencyLog = insert (newId e) (idempotencyLog db)\<rparr>,
        inv_reply = \<lparr>inv_status = 200, inv_json = SuccessPayload ''Stock deducted''\<rparr>,
        inv_trace = TxCommit # (if (13::int) = 13 then [Delay 5000] else [])\<rparr>"
    using h by (intro deduct_fresh_commit) (auto simp: int32_def)
  finally have r: "post_inventory_deduct (tx_fault e) ?b (inventory s) =
       \<lparr>inv_after = \<lparr>products = (products db)(pid \<mapsto> p\<lparr>stock := stock p - 13\<rparr>),
                      idempotencyLog = insert (newId e) (idempotencyLog db)\<rparr>,
        inv_reply = \<lparr>inv_status = 200, inv_json = SuccessPayload ''Stock deducted''\<rparr>,
        inv_trace = [TxCommit, Delay 5000]\<rparr>"
    using h by simp
  have late: "2000 < ms + delay_of (inv_trace (post_inventory_deduct (tx_fault e) ?b (inventory s)))"
    by (simp add: r)
  have v: "productId ?req = Some pid" "pid \<noteq> []" "quantity ?req = Some 13" "(13::int) \<noteq> 0"
    "orders s (newId e) = None" "net e = Latency ms" using h by simp_all
  have "int32 13" by (simp add: int32_def)
  from post_orders_late [OF v late this]
  show "post_orders e ?req s =
       \<lparr>sys_after =
          \<lparr>orders = (orders s)(newId e \<mapsto>
              \<lparr>o_productId = pid, o_quantity = 13, status = FAILED\<rparr>),
           inventory = \<lparr>products = (products db)(pid \<mapsto> p\<lparr>stock := stock p - 13\<rparr>),
                        idempotencyLog = insert (newId e) (idempotencyLog db)\<rparr>\<rparr>,
        reply = Some \<lparr>http_status = 503,
                      http_json = FailedPayload
                        ''Order processing timed out waiting for inventory'' (newId e) FAILED\<rparr>,
        trace = [OrderCreate (newId e) PENDING, InventoryCall (newId e),
                 OrderStatusWrite (newId e) FAILED]\<rparr>"
    by (simp add: Let_def r)
qed


theorem delay_frame_witness:
  "post_orders \<lparr>newId = ''ord-13'', net = Latency 5, tx_fault = None\<rparr>
     \<lparr>productId = Some ''p3'', quantity = Some 13, orderId = None\<rparr>
     \<lparr>orders = Map.empty,
      inventory = \<lparr>products = [''p3'' \<mapsto> \<lparr>name = ''Flux Capacitor'', stock = 20\<rparr>],
                   idempotencyLog = {}\<rparr>\<rparr>
   = \<lparr>sys_after =
        \<lparr>orders = [''ord-13'' \<mapsto> \<lparr>o_productId = ''p3'', o_quantity = 13, status = FAILED\<rparr>],
         inventory = \<lparr>products = [''p3'' \<mapsto> \<lparr>name = ''Flux Capacitor'', stock = 7\<rparr>],
                      idempotencyLog = {''ord-13''}\<rparr>\<rparr>,
      reply = Some \<lparr>http_status = 503,
                    http_json = FailedPayload
                      ''Order processing timed out waiting for inventory'' ''ord-13'' FAILED\<rparr>,
      trace = [OrderCreate ''ord-13'' PENDING, InventoryCall ''ord-13'',
               OrderStatusWrite ''ord-13'' FAILED]\<rparr>"
proof -
  let ?db = "\<lparr>products = [''p3'' \<mapsto> \<lparr>name = ''Flux Capacitor'', stock = 20\<rparr>],
              idempotencyLog = {}\<rparr>"
  let ?e = "\<lparr>newId = ''ord-13'', net = Latency 5, tx_fault = None\<rparr>"
  let ?s = "\<lparr>orders = Map.empty, inventory = ?db\<rparr>"
  have "\<forall>e s pid p ms. pid \<noteq> [] \<and> newId e \<noteq> [] \<and> orders s (newId e) = None \<and>
       newId e \<notin> idempotencyLog (inventory s) \<and> inventory s = ?db \<and>
       products ?db pid = Some p \<and> 13 \<le> stock p \<and> int32 (stock p) \<and>
       net e = Latency ms \<and> tx_fault e = None \<longrightarrow>
       post_orders e \<lparr>productId = Some pid, quantity = Some 13, orderId = None\<rparr> s =
       \<lparr>sys_after =
          \<lparr>orders = (orders s)(newId e \<mapsto>
              \<lparr>o_productId = pid, o_quantity = 13, status = FAILED\<rparr>),
           inventory = \<lparr>products = (products ?db)(pid \<mapsto> p\<lparr>stock := stock p - 13\<rparr>),
                        idempotencyLog = insert (newId e) (idempotencyLog ?db)\<rparr>\<rparr>,
        reply = Some \<lparr>http_status = 503,
                      http_json = FailedPayload
                        ''Order processing timed out waiting for inventory'' (newId e) FAILED\<rparr>,
        trace = [OrderCreate (newId e) PENDING, InventoryCall (newId e),
                 OrderStatusWrite (newId e) FAILED]\<rparr>"
    using delay_frame [of None "\<lparr>productId = None, quantity = None, orderId = None\<rparr>" ?db]
    by blast
  from this [rule_format, of "''p3''" ?e ?s "\<lparr>name = ''Flux Capacitor'', stock = 20\<rparr>" 5]
  show ?thesis by (simp add: int32_def)
qed

subsection \<open>Terminal finality\<close>

text \<open>
  C8. A run of the order handler either writes nothing (an invalid request, a quantity the
  order column does not hold, or a generated identifier that is taken), or creates one order
  in status \<^verbatim>\<open>PENDING\<close> under the fresh identifier, calls the inventory, and then writes
  the status of that order exactly once, to \<^verbatim>\<open>CONFIRMED\<close> or to \<^verbatim>\<open>FAILED\<close>. Every
  request with a \<^verbatim>\<open>productId\<close> and a quantity that the column holds, given a fresh
  identifier, is of the second kind: its order starts \<^verbatim>\<open>PENDING\<close> and gets its one
  terminal status write, whatever the network and the inventory do. An order that is
  \<^verbatim>\<open>CONFIRMED\<close> or \<^verbatim>\<open>FAILED\<close> keeps its row through a run of the handler and through
  every sequence of order placements and direct deduction calls.
\<close>

theorem terminal_finality:
  "(post_orders e req s = \<lparr>sys_after = s, reply = reply (post_orders e req s), trace = []\<rparr> \<or>
    (\<exists>pid q st.
       productId req = Some pid \<and> quantity req = Some q \<and>
       orders s (newId e) = None \<and> (st = CONFIRMED \<or> st = FAILED) \<and>
       trace (post_orders e req s) =
         [OrderCreate (newId e) PENDING, InventoryCall (newId e), OrderStatusWrite (newId e) st] \<and>
       status_writes (trace (post_orders e req s)) = [(newId e, st)] \<and>
       orders (sys_after (post_orders e req s)) =
         (orders s)(newId e \<mapsto> \<lparr>o_productId = pid, o_quantity = q, status = st\<rparr>))) \<and>
   (\<forall>pid q. productId req = Some pid \<and> pid \<noteq> [] \<and> quantity req = Some q \<and> q \<noteq> 0 \<and>
       int32 q \<and> orders s (newId e) = None \<longrightarrow>
       (\<exists>st. (st = CONFIRMED \<or> st = FAILED) \<and>
          trace (post_orders e req s) =
            [OrderCreate (newId e) PENDING, InventoryCall (newId e),
             OrderStatusWrite (newId e) st] \<and>
          status_writes (trace (post_orders e req s)) = [(newId e, st)] \<and>
          orders (sys_after (post_orders e req s)) =
            (orders s)(newId e \<mapsto> \<lparr>o_productId = pid, o_quantity = q, status = st\<rparr>))) \<and>
   (\<forall>oid row. orders s oid = Some row \<and> (status row = CONFIRMED \<or> status row = FAILED) \<longrightarrow>
      orders (sys_after (post_orders e req s)) oid = Some row \<and>
      orders (run rs s) oid = Some row)"
proof (intro conjI allI impI)
  show "post_orders e req s = \<lparr>sys_after = s, reply = reply (post_orders e req s), trace = []\<rparr> \<or>
    (\<exists>pid q st.
       productId req = Some pid \<and> quantity req = Some q \<and>
       orders s (newId e) = None \<and> (st = CONFIRMED \<or> st = FAILED) \<and>
       trace (post_orders e req s) =
         [OrderCreate (newId e) PENDING, InventoryCall (newId e), OrderStatusWrite (newId e) st] \<and>
       status_writes (trace (post_orders e req s)) = [(newId e, st)] \<and>
       orders (sys_after (post_orders e req s)) =
         (orders s)(newId e \<mapsto> \<lparr>o_productId = pid, o_quantity = q, status = st\<rparr>))"
    using post_orders_cases [of e req s] by (elim disjE exE conjE) auto
next
  fix pid q
  assume h: "productId req = Some pid \<and> pid \<noteq> [] \<and> quantity req = Some q \<and> q \<noteq> 0 \<and>
       int32 q \<and> orders s (newId e) = None"
  then have v: "productId req = Some pid" "pid \<noteq> []" "quantity req = Some q" "q \<noteq> 0"
    "orders s (newId e) = None" "int32 q" by simp_all
  from post_orders_saga [OF v]
  show "\<exists>st. (st = CONFIRMED \<or> st = FAILED) \<and>
          trace (post_orders e req s) =
            [OrderCreate (newId e) PENDING, InventoryCall (newId e),
             OrderStatusWrite (newId e) st] \<and>
          status_writes (trace (post_orders e req s)) = [(newId e, st)] \<and>
          orders (sys_after (post_orders e req s)) =
            (orders s)(newId e \<mapsto> \<lparr>o_productId = pid, o_quantity = q, status = st\<rparr>)"
    by (elim disjE exE conjE) auto
next
  fix oid row
  assume "orders s oid = Some row \<and> (status row = CONFIRMED \<or> status row = FAILED)"
  then have "orders s oid = Some row" by simp
  then show "orders (sys_after (post_orders e req s)) oid = Some row"
    by (rule post_orders_keeps)
next
  fix oid row
  assume "orders s oid = Some row \<and> (status row = CONFIRMED \<or> status row = FAILED)"
  then have "orders s oid = Some row" by simp
  then show "orders (run rs s) oid = Some row"
    by (rule run_keeps)
qed

theorem terminal_finality_witness:
  "orders (run
      [PostOrders \<lparr>newId = ''b'', net = Latency 10, tx_fault = None\<rparr>
         \<lparr>productId = Some ''p1'', quantity = Some 1, orderId = None\<rparr>,
       PostInventoryDeduct None
         \<lparr>productId = Some ''p1'', quantity = Some 1, orderId = Some ''a''\<rparr>,
       PostOrders \<lparr>newId = ''a'', net = Latency 10, tx_fault = None\<rparr>
         \<lparr>productId = Some ''p1'', quantity = Some 1, orderId = None\<rparr>]
      \<lparr>orders = [''a'' \<mapsto> \<lparr>o_productId = ''p1'', o_quantity = 13, status = FAILED\<rparr>],
       inventory = \<lparr>products = [''p1'' \<mapsto> \<lparr>name = ''Neural Interface'', stock = 37\<rparr>],
                    idempotencyLog = {''a''}\<rparr>\<rparr>) ''a''
   = Some \<lparr>o_productId = ''p1'', o_quantity = 13, status = FAILED\<rparr> \<and>
   (\<exists>st. (st = CONFIRMED \<or> st = FAILED) \<and>
      status_writes (trace (post_orders \<lparr>newId = ''b'', net = Latency 10, tx_fault = None\<rparr>
         \<lparr>productId = Some ''p1'', quantity = Some 1, orderId = None\<rparr>
         \<lparr>orders = [''a'' \<mapsto> \<lparr>o_productId = ''p1'', o_quantity = 13, status = FAILED\<rparr>],
          inventory = \<lparr>products = [''p1'' \<mapsto> \<lparr>name = ''Neural Interface'', stock = 37\<rparr>],
                       idempotencyLog = {''a''}\<rparr>\<rparr>)) = [(''b'', st)]) \<and>
   trace (post_orders \<lparr>newId = ''b'', net = Latency 10, tx_fault = None\<rparr>
         \<lparr>productId = Some ''p1'', quantity = Some 1, orderId = None\<rparr>
         \<lparr>orders = [''a'' \<mapsto> \<lparr>o_productId = ''p1'', o_quantity = 13, status = FAILED\<rparr>],
          inventory = \<lparr>products = [''p1'' \<mapsto> \<lparr>name = ''Neural Interface'', stock = 37\<rparr>],
                       idempotencyLog = {''a''}\<rparr>\<rparr>)
   = [OrderCreate ''b'' PENDING, InventoryCall ''b'', OrderStatusWrite ''b'' CONFIRMED]"
proof -
  let ?e = "\<lparr>newId = ''b'', net = Latency 10, tx_fault = None\<rparr>"
  let ?req = "\<lparr>productId = Some ''p1'', quantity = Some 1, orderId = None\<rparr>"
  let ?s = "\<lparr>orders = [''a'' \<mapsto> \<lparr>o_productId = ''p1'', o_quantity = 13, status = FAILED\<rparr>],
             inventory = \<lparr>products = [''p1'' \<mapsto> \<lparr>name = ''Neural Interface'', stock = 37\<rparr>],
                          idempotencyLog = {''a''}\<rparr>\<rparr>"
  let ?rs = "[PostOrders ?e ?req,
       PostInventoryDeduct None
         \<lparr>productId = Some ''p1'', quantity = Some 1, orderId = Some ''a''\<rparr>,
       PostOrders \<lparr>newId = ''a'', net = Latency 10, tx_fault = None\<rparr> ?req]"
  note t = terminal_finality [of ?e ?req ?s ?rs]
  have kept: "orders (run ?rs ?s) ''a'' =
      Some \<lparr>o_productId = ''p1'', o_quantity = 13, status = FAILED\<rparr>"
    using t by (simp del: run.simps)
  have once: "\<exists>st. (st = CONFIRMED \<or> st = FAILED) \<and>
      status_writes (trace (post_orders ?e ?req ?s)) = [(''b'', st)]"
  proof -
    from t have "\<forall>pid q. productId ?req = Some pid \<and> pid \<noteq> [] \<and> quantity ?req = Some q \<and>
       q \<noteq> 0 \<and> int32 q \<and> orders ?s (newId ?e) = None \<longrightarrow>
       (\<exists>st. (st = CONFIRMED \<or> st = FAILED) \<and>
          trace (post_orders ?e ?req ?s) =
            [OrderCreate (newId ?e) PENDING, InventoryCall (newId ?e),
             OrderStatusWrite (newId ?e) st] \<and>
          status_writes (trace (post_orders ?e ?req ?s)) = [(newId ?e, st)] \<and>
          orders (sys_after (post_orders ?e ?req ?s)) =
            (orders ?s)(newId ?e \<mapsto> \<lparr>o_productId = pid, o_quantity = q, status = st\<rparr>))"
      by blast
    from this [rule_format, of "''p1''" 1] show ?thesis
      by (auto simp: int32_def)
  qed
  have exact: "trace (post_orders ?e ?req ?s) =
      [OrderCreate ''b'' PENDING, InventoryCall ''b'', OrderStatusWrite ''b'' CONFIRMED]"
    by (simp add: post_orders_def falsy_string_def falsy_number_def order_create_def Let_def
          try_block_def axios_post_deduct_def post_inventory_deduct_def
          idempotencyLog_findUnique_def deduct_fresh_def transaction_def deduct_tx_def
          interrupted_def product_findUnique_def product_update_def idempotencyLog_create_def
          catch_block_def order_update_def int32_def)
  from kept once exact show ?thesis by blast
qed

subsection \<open>The order identifier in failure responses\<close>

text \<open>
  C9, as the spec states it, does not hold: a request without \<^verbatim>\<open>productId\<close> is rejected
  with a 400 before any order is created, and that response has no order identifier.
\<close>

theorem order_failure_id_counterexample:
  "reply (post_orders \<lparr>newId = ''ord-1'', net = Latency 10, tx_fault = None\<rparr>
            \<lparr>productId = None, quantity = Some 1, orderId = None\<rparr>
            \<lparr>orders = Map.empty,
             inventory = \<lparr>products = Map.empty, idempotencyLog = {}\<rparr>\<rparr>)
     = Some \<lparr>http_status = 400,
             http_json = InvalidPayload ''Missing productId or quantity''\<rparr> \<and>
   payload_orderId (InvalidPayload ''Missing productId or quantity'') = None"
  by (simp add: post_orders_def falsy_string_def)

text \<open>
  C9, amended. Every response of the order handler sent after the order has been created
  carries the identifier of that order: the 503 failure response as \<^verbatim>\<open>orderId\<close>, with the
  order stored as \<^verbatim>\<open>FAILED\<close>, and the 201 response as the \<^verbatim>\<open>id\<close> of the confirmed
  order. The only other response is the 400 for a missing \<^verbatim>\<open>productId\<close> or
  \<^verbatim>\<open>quantity\<close>, which is sent before any order exists, changes nothing and carries no
  identifier.
\<close>

theorem order_failure_carries_id:
  assumes "reply (post_orders e req s) = Some resp"
  shows "(resp = \<lparr>http_status = 400,
                  http_json = InvalidPayload ''Missing productId or quantity''\<rparr> \<and>
          (falsy_string (productId req) \<or> falsy_number (quantity req)) \<and>
          sys_after (post_orders e req s) = s \<and>
          payload_orderId (http_json resp) = None) \<or>
         (http_status resp = 503 \<and>
          (\<exists>msg. http_json resp = FailedPayload msg (newId e) FAILED) \<and>
          payload_orderId (http_json resp) = Some (newId e) \<and>
          (\<exists>row. orders (sys_after (post_orders e req s)) (newId e) = Some row \<and>
                 status row = FAILED)) \<or>
         (http_status resp = 201 \<and>
          payload_orderId (http_json resp) = Some (newId e) \<and>
          (\<exists>row. orders (sys_after (post_orders e req s)) (newId e) = Some row \<and>
                 status row = CONFIRMED))"
  using post_orders_cases [of e req s] assms
  by (elim disjE exE conjE) auto

theorem order_failure_carries_id_witness:
  "payload_orderId (FailedPayload ''Order failed due to inventory issue'' ''ord-2'' FAILED)
     = Some ''ord-2'' \<and>
   reply (post_orders \<lparr>newId = ''ord-2'', net = Latency 10, tx_fault = None\<rparr>
            \<lparr>productId = Some ''p1'', quantity = Some 1, orderId = None\<rparr>
            \<lparr>orders = Map.empty,
             inventory = \<lparr>products = [''p1'' \<mapsto> \<lparr>name = ''Hyperdrive Unit'', stock = 0\<rparr>],
                          idempotencyLog = {}\<rparr>\<rparr>)
     = Some \<lparr>http_status = 503,
             http_json = FailedPayload ''Order failed due to inventory issue'' ''ord-2'' FAILED\<rparr>"
proof -
  let ?e = "\<lparr>newId = ''ord-2'', net = Latency 10, tx_fault = None\<rparr>"
  let ?req = "\<lparr>productId = Some ''p1'', quantity = Some 1, orderId = None\<rparr>"
  let ?s = "\<lparr>orders = Map.empty,
             inventory = \<lparr>products = [''p1'' \<mapsto> \<lparr>name = ''Hyperdrive Unit'', stock = 0\<rparr>],
                          idempotencyLog = {}\<rparr>\<rparr>"
  have r: "reply (post_orders ?e ?req ?s)
     = Some \<lparr>http_status = 503,
             http_json = FailedPayload ''Order failed due to inventory issue'' ''ord-2'' FAILED\<rparr>"
    by (simp add: post_orders_def falsy_string_def falsy_number_def order_create_def Let_def
          try_block_def axios_post_deduct_def post_inventory_deduct_def
          idempotencyLog_findUnique_def deduct_fresh_def transaction_def deduct_tx_def
          interrupted_def product_findUnique_def catch_block_def order_update_def int32_def)
  from order_failure_carries_id [OF r] show ?thesis by (simp add: r)
qed

subsection \<open>Negative quantities\<close>

text \<open>
  C10, as the claim states it for every strictly negative quantity, does not hold: the stock
  column is a 32-bit integer. For the quantity -2147483648 and a stock of 10 the validation
  and the guard pass, but the store rejects the new stock 2147483658, the transaction is
  rolled back, and the handler answers 400 with the store unchanged.
\<close>

theorem negative_quantity_counterexample:
  "inv_after (post_inventory_deduct None
     \<lparr>productId = Some ''p4'', quantity = Some (- 2147483648), orderId = Some ''ord-n''\<rparr>
     \<lparr>products = [''p4'' \<mapsto> \<lparr>name = ''Hyperdrive Unit'', stock = 10\<rparr>], idempotencyLog = {}\<rparr>)
   = \<lparr>products = [''p4'' \<mapsto> \<lparr>name = ''Hyperdrive Unit'', stock = 10\<rparr>], idempotencyLog = {}\<rparr> \<and>
   inv_status (inv_reply (post_inventory_deduct None
     \<lparr>productId = Some ''p4'', quantity = Some (- 2147483648), orderId = Some ''ord-n''\<rparr>
     \<lparr>products = [''p4'' \<mapsto> \<lparr>name = ''Hyperdrive Unit'', stock = 10\<rparr>], idempotencyLog = {}\<rparr>))
   = 400 \<and>
   inv_trace (post_inventory_deduct None
     \<lparr>productId = Some ''p4'', quantity = Some (- 2147483648), orderId = Some ''ord-n''\<rparr>
     \<lparr>products = [''p4'' \<mapsto> \<lparr>name = ''Hyperdrive Unit'', stock = 10\<rparr>], idempotencyLog = {}\<rparr>)
   = [TxRollback]"
  by (simp add: post_inventory_deduct_def falsy_string_def falsy_number_def
        idempotencyLog_findUnique_def deduct_fresh_def transaction_def deduct_tx_def
        interrupted_def product_findUnique_def product_update_def int32_def)

text \<open>
  C10, amended. For every strictly negative quantity, a product that exists with a stock
  that is not negative, the stock less the quantity being a value the 32-bit stock column
  holds, and a fresh identifier: the validation of the deduction handler passes (a negative
  number is truthy), the guard \<^verbatim>\<open>stock < quantity\<close> does not trigger, and the transaction
  commits the stock less the quantity, which is more than the stock was, together with the
  log entry; the answer is \<^verbatim>\<open>Stock deducted\<close>. The order handler accepts the same
  quantity: with the network within the deadline it stores the order with the negative
  quantity and confirms it.
\<close>

theorem negative_quantity_restocks:
  assumes "q < 0" and "pid \<noteq> []" and "oid \<noteq> []" and "oid \<notin> idempotencyLog db"
    and "products db pid = Some p" and "0 \<le> stock p" and "int32 (stock p - q)"
  shows "\<not> falsy_number (Some q) \<and> \<not> stock p < q \<and> stock p < stock p - q \<and>
         post_inventory_deduct None
           \<lparr>productId = Some pid, quantity = Some q, orderId = Some oid\<rparr> db =
         \<lparr>inv_after = \<lparr>products = (products db)(pid \<mapsto> p\<lparr>stock := stock p - q\<rparr>),
                        idempotencyLog = insert oid (idempotencyLog db)\<rparr>,
          inv_reply = \<lparr>inv_status = 200, inv_json = SuccessPayload ''Stock deducted''\<rparr>,
          inv_trace = [TxCommit]\<rparr> \<and>
         (\<forall>e s ms. newId e = oid \<and> inventory s = db \<and> orders s oid = None \<and>
             net e = Latency ms \<and> ms \<le> 2000 \<and> tx_fault e = None \<longrightarrow>
             post_orders e \<lparr>productId = Some pid, quantity = Some q, orderId = None\<rparr> s =
             \<lparr>sys_after =
                \<lparr>orders = (orders s)(oid \<mapsto>
                    \<lparr>o_productId = pid, o_quantity = q, status = CONFIRMED\<rparr>),
                 inventory = \<lparr>products = (products db)(pid \<mapsto> p\<lparr>stock := stock p - q\<rparr>),
                              idempotencyLog = insert oid (idempotencyLog db)\<rparr>\<rparr>,
              reply = Some \<lparr>http_status = 201,
                            http_json = OrderPayload oid
                              \<lparr>o_productId = pid, o_quantity = q, status = CONFIRMED\<rparr>\<rparr>,
              trace = [OrderCreate oid PENDING, InventoryCall oid,
                       OrderStatusWrite oid CONFIRMED]\<rparr>)"
proof -
  let ?b = "\<lparr>productId = Some pid, quantity = Some q, orderId = Some oid\<rparr>"
  let ?req = "\<lparr>productId = Some pid, quantity = Some q, orderId = None\<rparr>"
  have q0: "q \<noteq> 0" and le: "q \<le> stock p" and q13: "q \<noteq> 13" using assms(1,6) by simp_all
  have range: "int32 q" using assms(1,6,7) by (simp add: int32_def)
  have "post_inventory_deduct None ?b db = deduct_fresh None pid q oid db"
    using assms(2-4) q0 by (intro post_inventory_deduct_fresh) simp_all
  also have "\<dots> = \<lparr>inv_after = \<lparr>products = (products db)(pid \<mapsto> p\<lparr>stock := stock p - q\<rparr>),
                        idempotencyLog = insert oid (idempotencyLog db)\<rparr>,
          inv_reply = \<lparr>inv_status = 200, inv_json = SuccessPayload ''Stock deducted''\<rparr>,
          inv_trace = TxCommit # (if q = 13 then [Delay 5000] else [])\<rparr>"
    using assms(5) le assms(4) assms(7) by (rule deduct_fresh_commit)
  finally have r: "post_inventory_deduct None ?b db =
         \<lparr>inv_after = \<lparr>products = (products db)(pid \<mapsto> p\<lparr>stock := stock p - q\<rparr>),
                        idempotencyLog = insert oid (idempotencyLog db)\<rparr>,
          inv_reply = \<lparr>inv_status = 200, inv_json = SuccessPayload ''Stock deducted''\<rparr>,
          inv_trace = [TxCommit]\<rparr>"
    using q13 by simp
  have ord: "post_orders e ?req s =
             \<lparr>sys_after =
                \<lparr>orders = (orders s)(oid \<mapsto>
                    \<lparr>o_productId = pid, o_quantity = q, status = CONFIRMED\<rparr>),
                 inventory = \<lparr>products = (products db)(pid \<mapsto> p\<lparr>stock := stock p - q\<rparr>),
                              idempotencyLog = insert oid (idempotencyLog db)\<rparr>\<rparr>,
              reply = Some \<lparr>http_status = 201,
                            http_json = OrderPayload oid
                              \<lparr>o_productId = pid, o_quantity = q, status = CONFIRMED\<rparr>\<rparr>,
              trace = [OrderCreate oid PENDING, InventoryCall oid,
                       OrderStatusWrite oid CONFIRMED]\<rparr>"
    if h: "newId e = oid \<and> inventory s = db \<and> orders s oid = None \<and>
             net e = Latency ms \<and> ms \<le> 2000 \<and> tx_fault e = None"
    for e :: env and s :: system and ms
  proof -
    have r': "post_inventory_deduct (tx_fault e)
            \<lparr>productId = Some pid, quantity = Some q, orderId = Some (newId e)\<rparr> (inventory s) =
         \<lparr>inv_after = \<lparr>products = (products db)(pid \<mapsto> p\<lparr>stock := stock p - q\<rparr>),
                        idempotencyLog = insert oid (idempotencyLog db)\<rparr>,
          inv_reply = \<lparr>inv_status = 200, inv_json = SuccessPayload ''Stock deducted''\<rparr>,
          inv_trace = [TxCommit]\<rparr>"
      using h r by simp
    have v: "productId ?req = Some pid" "quantity ?req = Some q" by simp_all
    have f: "orders s (newId e) = None" "net e = Latency ms" and ms: "ms \<le> 2000"
      and id: "newId e = oid" using h by simp_all
    have d: "ms + delay_of (inv_trace (post_inventory_deduct (tx_fault e)
            \<lparr>productId = Some pid, quantity = Some q, orderId = Some (newId e)\<rparr> (inventory s)))
         \<le> 2000" unfolding r' using ms by simp
    have st: "inv_status (inv_reply (post_inventory_deduct (tx_fault e)
            \<lparr>productId = Some pid, quantity = Some q, orderId = Some (newId e)\<rparr> (inventory s)))
         = 200" unfolding r' by simp
    show ?thesis
      unfolding post_orders_in_time [OF v(1) assms(2) v(2) q0 f d st range] r' by (simp add: id)
  qed
  have "\<not> falsy_number (Some q)" using q0 by (simp add: falsy_number_def)
  moreover have "\<not> stock p < q" using le by simp
  moreover have "stock p < stock p - q" using assms(1) by simp
  ultimately show ?thesis using r ord by blast
qed

theorem negative_quantity_restocks_witness:
  "post_inventory_deduct None
     \<lparr>productId = Some ''p4'', quantity = Some (- 5), orderId = Some ''ord-n''\<rparr>
     \<lparr>products = [''p4'' \<mapsto> \<lparr>name = ''Hyperdrive Unit'', stock = 10\<rparr>], idempotencyLog = {}\<rparr> =
   \<lparr>inv_after = \<lparr>products = [''p4'' \<mapsto> \<lparr>name = ''Hyperdrive Unit'', stock = 15\<rparr>],
                  idempotencyLog = {''ord-n''}\<rparr>,
    inv_reply = \<lparr>inv_status = 200, inv_json = SuccessPayload ''Stock deducted''\<rparr>,
    inv_trace = [TxCommit]\<rparr>"
  using negative_quantity_restocks [of "- 5" "''p4''" "''ord-n''"
      "\<lparr>products = [''p4'' \<mapsto> \<lparr>name = ''Hyperdrive Unit'', stock = 10\<rparr>], idempotencyLog = {}\<rparr>"
      "\<lparr>name = ''Hyperdrive Unit'', stock = 10\<rparr>"]
  by (simp add: int32_def)

end
